theory Spec2Isabelle
  imports Complex_Main "HOL-Library.Char_ord" "HOL-Library.List_Lexorder"
begin

section \<open>Python values, exceptions and the runtime library\<close>

text \<open>
  A Python float is a binary64 number: a finite value (kept as the exact rational it
  denotes), an infinity or a NaN. Comparison of two floats is exact, so comparing the
  rationals gives what Python gives.
\<close>

datatype pyfloat = Fin rat | PInf | NInf | NaN

text \<open>
  The scalar values a cell of the findings table holds once the spreadsheet is read:
  Python None, the float NaN (an empty cell), a number (an int or a finite float, kept
  as its value: a spreadsheet stores no infinity) or a text.
\<close>

datatype pyval = PyNone | PyNaN | PyNum rat | PyStr string

datatype error =
    ValueError | TypeError | OverflowError | KeyError | AttributeError | EmptyDataError
  | ParserError | FileNotFoundError | OSError

text \<open>JSON values, as \<open>json.loads\<close> returns them and \<open>json.dumps\<close> takes them.\<close>

datatype json =
    JNull | JBool bool | JNum rat | JStr string | JArr "json list" | JObj "(string \<times> json) list"

text \<open>
  Functions of the Python runtime and of its libraries that the code calls and that are
  not code of the repository. They are taken as they are: every theorem holds for any
  such runtime.
  \<^item> \<open>float_of_str s\<close> is \<open>float(s)\<close> on a str; \<open>None\<close> when it raises ValueError.
  \<^item> \<open>str_of_num x\<close> is \<open>str(x)\<close> on a number.
  \<^item> \<open>str_lower s\<close> is \<open>s.lower()\<close>.
  \<^item> \<open>strptime_ymd s\<close> is \<open>datetime.strptime(s, "%Y-%m-%d").date().isoformat()\<close>;
    \<open>None\<close> when strptime raises ValueError.
  \<^item> \<open>days_since s\<close> is \<open>(date.today() - date.fromisoformat(s)).days\<close>; \<open>None\<close>
    when fromisoformat raises ValueError.
  \<^item> \<open>set_order xs\<close> is the order in which a set iterates, the elements \<open>xs\<close>
    having been added in that order.
  \<^item> \<open>json_dumps j\<close> is \<open>json.dumps(j)\<close>; \<open>json_loads s\<close> is \<open>json.loads(s)\<close> on a
    str, \<open>None\<close> when it raises JSONDecodeError (a ValueError).
  \<^item> \<open>csv_convert texts\<close> is the type inference of \<open>pd.read_csv\<close> on a column, given
    the texts of its cells that are not NA markers: the values of the column when it is
    read as a column of numbers, \<open>None\<close> when it stays a column of texts.
  \<^item> \<open>today_ymd\<close> is \<open>datetime.datetime.now().strftime("%Y-%m-%d")\<close>.
\<close>

record runtime =
  float_of_str :: "string \<Rightarrow> pyfloat option"
  str_of_num :: "rat \<Rightarrow> string"
  str_lower :: "string \<Rightarrow> string"
  strptime_ymd :: "string \<Rightarrow> string option"
  days_since :: "string \<Rightarrow> int option"
  set_order :: "string list \<Rightarrow> string list"
  json_dumps :: "json \<Rightarrow> string"
  json_loads :: "string \<Rightarrow> json option"
  csv_convert :: "string list \<Rightarrow> pyval list option"
  today_ymd :: string

text \<open>\<open>pd.isna\<close> on a scalar.\<close>

fun pd_isna :: "pyval \<Rightarrow> bool" where
  "pd_isna PyNone = True"
| "pd_isna PyNaN = True"
| "pd_isna _ = False"

text \<open>\<open>x >= c\<close> for a float \<open>x\<close> and a finite literal \<open>c\<close>.\<close>

fun ge_lit :: "pyfloat \<Rightarrow> rat \<Rightarrow> bool" where
  "ge_lit (Fin a) c = (c \<le> a)"
| "ge_lit PInf c = True"
| "ge_lit NInf c = False"
| "ge_lit NaN c = False"

text \<open>
  \<open>float(n)\<close> on an int \<open>n\<close> rounds \<open>n\<close> to the nearest binary64 number, ties to even,
  and raises OverflowError when that is beyond the largest finite one, which is
  \<open>2^1024 - 2^971\<close>: so it raises exactly when \<open>|n| \<ge> 2^1024 - 2^970\<close>. A number of
  that size is an int, every finite float being smaller.
\<close>

definition float_overflow :: rat where
  "float_overflow = 2 ^ 1024 - 2 ^ 970"

text \<open>
  \<open>float(v)\<close>: TypeError on None, the parser of the runtime on a str, OverflowError on
  an int beyond the range of a float, the number itself on a float. On a smaller int the
  result is the int rounded to a float; it is kept here as the value of the int, which
  compares with each literal of the code as the rounded one does (rounding is monotone,
  and exact below \<open>2^53\<close>, where the literals are).
\<close>

fun py_float :: "runtime \<Rightarrow> pyval \<Rightarrow> error + pyfloat" where
  "py_float rt PyNone = Inl TypeError"
| "py_float rt PyNaN = Inr NaN"
| "py_float rt (PyNum x) =
     (if float_overflow \<le> \<bar>x\<bar> then Inl OverflowError else Inr (Fin x))"
| "py_float rt (PyStr s) =
     (case float_of_str rt s of None \<Rightarrow> Inl ValueError | Some x \<Rightarrow> Inr x)"

text \<open>Sequencing of a computation that may raise, and \<open>try: ... except (..): ...\<close>.\<close>

definition ebind :: "error + 'a \<Rightarrow> ('a \<Rightarrow> error + 'b) \<Rightarrow> error + 'b" where
  "ebind m f = (case m of Inl e \<Rightarrow> Inl e | Inr v \<Rightarrow> f v)"

definition try_except :: "error + 'a \<Rightarrow> error list \<Rightarrow> error + 'a \<Rightarrow> error + 'a" where
  "try_except body caught handler =
     (case body of
        Inl e \<Rightarrow> if e \<in> set caught then handler else Inl e
      | Inr v \<Rightarrow> Inr v)"

text \<open>
  The binary64 values of the literals \<open>0.1\<close>, \<open>0.4\<close>, \<open>0.7\<close> and \<open>0.9\<close> of
  scoring.py (\<open>9.0\<close>, \<open>7.0\<close> and \<open>4.0\<close> are exact), and of \<open>8.999\<close>.
\<close>

definition lit_0_1 :: rat where "lit_0_1 = 3602879701896397 / 36028797018963968"
definition lit_0_4 :: rat where "lit_0_4 = 3602879701896397 / 9007199254740992"
definition lit_0_7 :: rat where "lit_0_7 = 3152519739159347 / 4503599627370496"
definition lit_0_9 :: rat where "lit_0_9 = 8106479329266893 / 9007199254740992"
definition lit_8_999 :: rat where "lit_8_999 = 5065986630838387 / 562949953421312"

section \<open>scoring.py\<close>

definition categorize_cvss_score :: "runtime \<Rightarrow> pyval \<Rightarrow> error + string" where
  "categorize_cvss_score rt score =
     (if pd_isna score then Inr ''Not Assigned''
      else try_except
        (ebind (py_float rt score) (\<lambda>score.
           if ge_lit score 9 then Inr ''Critical''
           else if ge_lit score 7 then Inr ''High''
           else if ge_lit score 4 then Inr ''Medium''
           else if ge_lit score lit_0_1 then Inr ''Low''
           else Inr ''Not Assigned''))
        [ValueError, TypeError]
        (Inr ''Not Assigned''))"

definition categorize_epss_score :: "runtime \<Rightarrow> pyval \<Rightarrow> error + string" where
  "categorize_epss_score rt score =
     (if pd_isna score then Inr ''Not Assigned''
      else try_except
        (ebind (py_float rt score) (\<lambda>score.
           if ge_lit score lit_0_9 then Inr ''Critical''
           else if ge_lit score lit_0_7 then Inr ''High''
           else if ge_lit score lit_0_4 then Inr ''Medium''
           else if ge_lit score lit_0_1 then Inr ''Low''
           else Inr ''Not Assigned''))
        [ValueError, TypeError]
        (Inr ''Not Assigned''))"

definition categorize_vpr_score :: "runtime \<Rightarrow> pyval \<Rightarrow> error + string" where
  "categorize_vpr_score rt score =
     (if pd_isna score then Inr ''Not Assigned''
      else try_except
        (ebind (py_float rt score) (\<lambda>score.
           if ge_lit score 9 then Inr ''Critical''
           else if ge_lit score 7 then Inr ''High''
           else if ge_lit score 4 then Inr ''Medium''
           else if ge_lit score lit_0_1 then Inr ''Low''
           else Inr ''Not Assigned''))
        [ValueError, TypeError]
        (Inr ''Not Assigned''))"

text \<open>
  A row handed to a function by \<open>DataFrame.apply(axis=1)\<close> is a Series: a map from
  the column names to the cells. \<open>row.get(c, d)\<close> is \<open>d\<close> when the column is absent.
\<close>

type_synonym series = "string \<rightharpoonup> pyval"

definition series_get :: "series \<Rightarrow> string \<Rightarrow> pyval \<Rightarrow> pyval" where
  "series_get row c d = (case row c of None \<Rightarrow> d | Some v \<Rightarrow> v)"

text \<open>\<open>d.get(k, default)\<close> on a dict written as a list of pairs.\<close>

definition dict_get :: "('k \<times> 'v) list \<Rightarrow> 'k \<Rightarrow> 'v \<Rightarrow> 'v" where
  "dict_get d k dflt = (case map_of d k of None \<Rightarrow> dflt | Some v \<Rightarrow> v)"

definition priority_scores :: "(pyval \<times> int) list" where
  "priority_scores =
     [(PyStr ''Critical'', 4), (PyStr ''High'', 3), (PyStr ''Medium'', 2), (PyStr ''Low'', 1),
      (PyStr ''Not Assigned'', 0), (PyStr ''Yes'', 4), (PyStr ''No'', 0)]"

definition calculate_exploitability_score :: "series \<Rightarrow> int" where
  "calculate_exploitability_score row =
     (let epss_score = dict_get priority_scores
                         (series_get row ''EPSS Category'' (PyStr ''Not Assigned'')) 0;
          vpr_score = dict_get priority_scores
                         (series_get row ''VPR Category'' (PyStr ''Not Assigned'')) 0;
          kev_score = dict_get priority_scores
                         (series_get row ''KEV Listed'' (PyStr ''No'')) 0
      in epss_score + vpr_score + kev_score)"

section \<open>The findings table\<close>

text \<open>
  A pandas DataFrame: the column names in order, and the rows, each a Series over the
  columns. A well-formed table has every column in every row.
\<close>

record dataframe =
  columns :: "string list"
  rows :: "series list"

text \<open>\<open>row[c]\<close> on a Series raises KeyError when the label is absent.\<close>

definition series_index :: "series \<Rightarrow> string \<Rightarrow> error + pyval" where
  "series_index row c = (case row c of None \<Rightarrow> Inl KeyError | Some v \<Rightarrow> Inr v)"

text \<open>The cell of a row in a column of the table (NaN where a ragged row has none).\<close>

definition cell :: "series \<Rightarrow> string \<Rightarrow> pyval" where
  "cell row c = series_get row c PyNaN"

text \<open>\<open>df[c]\<close>: the cells of a column, KeyError when the table has no such column.\<close>

definition column :: "dataframe \<Rightarrow> string \<Rightarrow> error + pyval list" where
  "column df c =
     (if c \<in> set (columns df) then Inr (map (\<lambda>row. cell row c) (rows df)) else Inl KeyError)"

text \<open>\<open>df[c] = values\<close>: the column is replaced, or added after the last one.\<close>

definition set_column :: "string \<Rightarrow> pyval list \<Rightarrow> dataframe \<Rightarrow> dataframe" where
  "set_column c vals df =
     df\<lparr>columns := (if c \<in> set (columns df) then columns df else columns df @ [c]),
        rows := map (\<lambda>(row, v). row(c \<mapsto> v)) (zip (rows df) vals)\<rparr>"

text \<open>\<open>df[mask]\<close>: the rows that satisfy a condition, in their order.\<close>

definition filter_rows :: "(series \<Rightarrow> bool) \<Rightarrow> dataframe \<Rightarrow> dataframe" where
  "filter_rows p df = df\<lparr>rows := filter p (rows df)\<rparr>"

text \<open>
  A function applied to each element in turn (\<open>Series.apply\<close>, \<open>DataFrame.apply\<close> by
  row): the first exception ends the whole application.
\<close>

fun emap :: "('a \<Rightarrow> error + 'b) \<Rightarrow> 'a list \<Rightarrow> error + 'b list" where
  "emap f [] = Inr []"
| "emap f (x # xs) =
     (case f x of
        Inl e \<Rightarrow> Inl e
      | Inr y \<Rightarrow> (case emap f xs of Inl e \<Rightarrow> Inl e | Inr ys \<Rightarrow> Inr (y # ys)))"

section \<open>categorization.py\<close>

text \<open>Truth value of a scalar in a condition.\<close>

fun py_truthy :: "pyval \<Rightarrow> bool" where
  "py_truthy PyNone = False"
| "py_truthy PyNaN = True"
| "py_truthy (PyNum x) = (x \<noteq> 0)"
| "py_truthy (PyStr s) = (s \<noteq> [])"

text \<open>\<open>pat in s\<close> on two str: \<open>pat\<close> occurs in \<open>s\<close> as a contiguous run.\<close>

fun starts_with :: "string \<Rightarrow> string \<Rightarrow> bool" where
  "starts_with s [] = True"
| "starts_with [] (p # ps) = False"
| "starts_with (c # cs) (p # ps) = (c = p \<and> starts_with cs ps)"

fun str_contains :: "string \<Rightarrow> string \<Rightarrow> bool" where
  "str_contains [] pat = (pat = [])"
| "str_contains (c # cs) pat = (starts_with (c # cs) pat \<or> str_contains cs pat)"

text \<open>\<open>v.lower()\<close>: only a str has the method.\<close>

fun py_lower :: "runtime \<Rightarrow> pyval \<Rightarrow> error + string" where
  "py_lower rt (PyStr s) = Inr (str_lower rt s)"
| "py_lower rt _ = Inl AttributeError"

text \<open>\<open>sep.join(xs)\<close>.\<close>

fun py_join :: "string \<Rightarrow> string list \<Rightarrow> string" where
  "py_join sep [] = []"
| "py_join sep [x] = x"
| "py_join sep (x # y # ys) = x @ sep @ py_join sep (y # ys)"

text \<open>
  \<open>NAME_MAPPINGS\<close> and \<open>BUCKET_MAPPINGS\<close> are dicts of \<open>va_tool/data/mappings.py\<close>, a
  file that is not among the sources: a label (a severity, a bucket) with its list of
  patterns, in insertion order. They are parameters of the functions that read them.
\<close>

type_synonym mappings = "(string \<times> string list) list"

text \<open>Some pattern of the list occurs in the lower-cased name.\<close>

definition any_pattern_in :: "runtime \<Rightarrow> string list \<Rightarrow> string \<Rightarrow> bool" where
  "any_pattern_in rt patterns name_lower =
     list_ex (\<lambda>pattern. str_contains name_lower (str_lower rt pattern)) patterns"

text \<open>The two nested loops of \<open>assign_severity\<close>: the first severity with a pattern in the name.\<close>

fun first_severity :: "runtime \<Rightarrow> mappings \<Rightarrow> string \<Rightarrow> string option" where
  "first_severity rt [] name_lower = None"
| "first_severity rt ((severity, name_patterns) # rest) name_lower =
     (if any_pattern_in rt name_patterns name_lower then Some severity
      else first_severity rt rest name_lower)"

definition assign_severity :: "runtime \<Rightarrow> mappings \<Rightarrow> pyval \<Rightarrow> pyval \<Rightarrow> error + pyval" where
  "assign_severity rt NAME_MAPPINGS name existing_risk =
     (if py_truthy existing_risk \<and> existing_risk \<notin> set [PyStr ''None'', PyNone]
         \<and> \<not> pd_isna existing_risk
      then Inr existing_risk
      else if pd_isna name then Inr (PyStr ''Informational'')
      else ebind (py_lower rt name) (\<lambda>name_lower.
        case first_severity rt NAME_MAPPINGS name_lower of
          Some severity \<Rightarrow> Inr (PyStr severity)
        | None \<Rightarrow> Inr (PyStr ''Check Needed'')))"

text \<open>
  The buckets added to the set \<open>assigned_buckets\<close>, in the order of the loop; a set
  keeps one copy of each.
\<close>

definition matched_buckets :: "runtime \<Rightarrow> mappings \<Rightarrow> string \<Rightarrow> string list" where
  "matched_buckets rt BUCKET_MAPPINGS name_lower =
     remdups (map fst (filter (\<lambda>(bucket, keywords). any_pattern_in rt keywords name_lower)
                         BUCKET_MAPPINGS))"

definition categorize_name :: "runtime \<Rightarrow> mappings \<Rightarrow> pyval \<Rightarrow> error + string" where
  "categorize_name rt BUCKET_MAPPINGS name =
     (if pd_isna name then Inr []
      else ebind (py_lower rt name) (\<lambda>name_lower.
        let assigned_buckets = matched_buckets rt BUCKET_MAPPINGS name_lower
        in Inr (if assigned_buckets \<noteq> []
                then py_join '', '' (set_order rt assigned_buckets)
                else ''Miscellaneous'')))"

text \<open>
  The stage: the risk of each row from its name and its declared risk (\<open>row["Name"]\<close>
  raises KeyError without the column, \<open>row.get("Risk")\<close> is None without it), then the
  bucket of each name. For a table without rows the model adds the two columns with no
  cell (what \<open>DataFrame.apply\<close> returns for such a table depends on the pandas
  version); no statement below is about such a table.
\<close>

definition categorize_vulnerabilities ::
    "runtime \<Rightarrow> mappings \<Rightarrow> mappings \<Rightarrow> dataframe \<Rightarrow> error + dataframe" where
  "categorize_vulnerabilities rt NAME_MAPPINGS BUCKET_MAPPINGS df =
     ebind (emap (\<lambda>row. ebind (series_index row ''Name'') (\<lambda>name.
                     assign_severity rt NAME_MAPPINGS name (series_get row ''Risk'' PyNone)))
              (rows df)) (\<lambda>risks.
     let result_df = set_column ''Risk'' risks df in
     ebind (column result_df ''Name'') (\<lambda>names.
     ebind (emap (categorize_name rt BUCKET_MAPPINGS) names) (\<lambda>buckets.
     Inr (set_column ''Bucket'' (map PyStr buckets) result_df))))"

text \<open>\<open>df[c] = f(row)\<close> computed row by row from the table itself.\<close>

definition assign :: "string \<Rightarrow> (series \<Rightarrow> pyval) \<Rightarrow> dataframe \<Rightarrow> dataframe" where
  "assign c f df = set_column c (map f (rows df)) df"

text \<open>\<open>df[cols]\<close> for a list of columns of the table.\<close>

definition select_columns :: "string list \<Rightarrow> dataframe \<Rightarrow> dataframe" where
  "select_columns cols df =
     \<lparr> columns = cols, rows = map (\<lambda>row. row |` set cols) (rows df) \<rparr>"

text \<open>\<open>Series.map(d)\<close> for a dict \<open>d\<close> with integer values: NaN where the key is absent.\<close>

definition map_dict :: "(pyval \<times> int) list \<Rightarrow> pyval \<Rightarrow> pyval" where
  "map_dict d v = (case map_of d v of None \<Rightarrow> PyNaN | Some n \<Rightarrow> PyNum (of_int n))"

text \<open>Arithmetic of numeric columns: NaN where an operand is not a number.\<close>

fun num_mul :: "pyval \<Rightarrow> rat \<Rightarrow> pyval" where
  "num_mul (PyNum x) k = PyNum (x * k)"
| "num_mul _ k = PyNaN"

fun num_add :: "pyval \<Rightarrow> pyval \<Rightarrow> pyval" where
  "num_add (PyNum x) (PyNum y) = PyNum (x + y)"
| "num_add _ _ = PyNaN"

text \<open>
  The order of \<open>sort_values\<close> on one key. Nulls come last whatever the direction.
  Among the other values pandas orders numbers by value, texts by code points, and in a
  column that mixes them the numbers before the texts; descending is the reverse.
\<close>

fun value_le :: "pyval \<Rightarrow> pyval \<Rightarrow> bool" where
  "value_le (PyNum x) (PyNum y) = (x \<le> y)"
| "value_le (PyStr s) (PyStr t) = (s \<le> t)"
| "value_le (PyNum x) (PyStr t) = True"
| "value_le (PyStr s) (PyNum y) = False"
| "value_le _ _ = True"

definition key_le :: "bool \<Rightarrow> pyval \<Rightarrow> pyval \<Rightarrow> bool" where
  "key_le ascending x y =
     (pd_isna y \<or> (\<not> pd_isna x \<and> (if ascending then value_le x y else value_le y x)))"

text \<open>Rows compared by the keys in turn, the next key deciding where a key ties.\<close>

fun rows_le :: "(string \<times> bool) list \<Rightarrow> series \<Rightarrow> series \<Rightarrow> bool" where
  "rows_le [] a b = True"
| "rows_le ((k, ascending) # ks) a b =
     (if key_le ascending (cell a k) (cell b k) \<and> key_le ascending (cell b k) (cell a k)
      then rows_le ks a b
      else key_le ascending (cell a k) (cell b k))"

text \<open>A stable sort: rows that tie on every key keep their order.\<close>

fun insert_by :: "('a \<Rightarrow> 'a \<Rightarrow> bool) \<Rightarrow> 'a \<Rightarrow> 'a list \<Rightarrow> 'a list" where
  "insert_by le x [] = [x]"
| "insert_by le x (y # ys) = (if le x y then x # y # ys else y # insert_by le x ys)"

definition sort_by :: "('a \<Rightarrow> 'a \<Rightarrow> bool) \<Rightarrow> 'a list \<Rightarrow> 'a list" where
  "sort_by le xs = foldr (insert_by le) xs []"

text \<open>
  \<open>df.sort_values(by=keys, ascending=flags)\<close>: ValueError when the two lists differ in
  length; otherwise the stable sort by several keys (the code never sorts by one key
  with one flag).
\<close>

definition sort_values :: "string list \<Rightarrow> bool list \<Rightarrow> dataframe \<Rightarrow> error + dataframe" where
  "sort_values keys ascending df =
     (if length keys \<noteq> length ascending then Inl ValueError
      else Inr (df\<lparr>rows := sort_by (rows_le (zip keys ascending)) (rows df)\<rparr>))"

section \<open>helpers.py\<close>

text \<open>
  \<open>clean_for_json\<close> on a table: NaN becomes None (the table holds no infinity and no
  \<open>pd.NA\<close>), and the table becomes the list of its rows as dicts.
\<close>

fun clean_value :: "pyval \<Rightarrow> pyval" where
  "clean_value PyNaN = PyNone"
| "clean_value v = v"

definition to_record :: "string list \<Rightarrow> series \<Rightarrow> series" where
  "to_record cols row = (\<lambda>c. if c \<in> set cols then Some (clean_value (cell row c)) else None)"

definition clean_for_json :: "dataframe \<Rightarrow> series list" where
  "clean_for_json df = map (to_record (columns df)) (rows df)"

section \<open>analysis.py\<close>

definition band_values :: "(pyval \<times> int) list" where
  "band_values =
     [(PyStr ''Critical'', 4), (PyStr ''High'', 3), (PyStr ''Medium'', 2), (PyStr ''Low'', 1),
      (PyStr ''Not Assigned'', 0)]"

definition is_common_critical :: "series \<Rightarrow> bool" where
  "is_common_critical row =
     (cell row ''CVSS Category'' \<in> set [PyStr ''Critical'', PyStr ''High''] \<and>
      cell row ''EPSS Category'' \<in> set [PyStr ''Critical'', PyStr ''High''] \<and>
      cell row ''VPR Category'' \<in> set [PyStr ''Critical'', PyStr ''High''] \<and>
      cell row ''KEV Listed'' = PyStr ''Yes'')"

definition combined_priority :: "series \<Rightarrow> pyval" where
  "combined_priority row =
     num_add (num_add (num_mul (cell row ''CVSS Value'') 2) (cell row ''EPSS Value''))
       (cell row ''VPR Value'')"

text \<open>The two column lists of \<open>generate_common_critical\<close>.\<close>

definition required_cols :: "string list" where
  "required_cols = [''CVSS Category'', ''EPSS Category'', ''VPR Category'', ''KEV Listed'']"

definition required_columns :: "string list" where
  "required_columns =
     [''Plugin ID'', ''CVE'', ''Host'', ''Name'', ''Description'', ''Plugin Output'',
      ''Risk'', ''CVSS v3.0 Base Score'', ''CVSS Category'', ''EPSS Score'',
      ''EPSS Category'', ''VPR Score'', ''VPR Category'', ''KEV Listed'',
      ''Combined Priority'']"

definition generate_common_critical :: "dataframe \<Rightarrow> error + series list" where
  "generate_common_critical df =
     (if \<not> list_all (\<lambda>col. col \<in> set (columns df)) required_cols then Inr []
      else
        let common_critical = filter_rows is_common_critical df in
        if rows common_critical \<noteq> [] then
          let common_critical = assign ''CVSS Value''
                (\<lambda>row. map_dict band_values (cell row ''CVSS Category'')) common_critical;
              common_critical = assign ''EPSS Value''
                (\<lambda>row. map_dict band_values (cell row ''EPSS Category'')) common_critical;
              common_critical = assign ''VPR Value''
                (\<lambda>row. map_dict band_values (cell row ''VPR Category'')) common_critical;
              common_critical = assign ''Combined Priority'' combined_priority common_critical;
              available_columns =
                filter (\<lambda>col. col \<in> set (columns common_critical)) required_columns;
              common_critical = select_columns available_columns common_critical;
              sort_columns = [''Combined Priority''] @
                (if ''CVSS v3.0 Base Score'' \<in> set (columns common_critical)
                 then [''CVSS v3.0 Base Score''] else [])
          in ebind (sort_values sort_columns [False, False] common_critical)
               (\<lambda>common_critical. Inr (clean_for_json common_critical))
        else Inr [])"

section \<open>api.py\<close>

text \<open>
  An entry of the CVE cache: \<open>{"date_obj": d, "patch_info": {"status": s, "references": r}}\<close>.
\<close>

record patch_info =
  status :: pyval
  references :: json

record cache_entry =
  date_obj :: pyval
  patch_info :: patch_info

text \<open>
  The cache is a dict from CVE id to entry. A dict keeps its keys in insertion order;
  assigning to a key that is present keeps its place.
\<close>

type_synonym cve_cache = "(pyval \<times> cache_entry) list"

fun dict_set :: "('k \<times> 'v) list \<Rightarrow> 'k \<Rightarrow> 'v \<Rightarrow> ('k \<times> 'v) list" where
  "dict_set [] k v = [(k, v)]"
| "dict_set ((k', v') # d) k v = (if k' = k then (k, v) # d else (k', v') # dict_set d k v)"

text \<open>
  The answer of the NVD service to one request, as far as the code looks at it: a
  transport failure or an error status (\<open>requests.RequestException\<close>, from \<open>get\<close>,
  \<open>raise_for_status\<close> or \<open>json\<close>), a rate-limit status (403 or 429), or a JSON document,
  of which the code reads the "cve" objects of the "vulnerabilities" array. A field
  that is absent has the default the code gives to \<open>.get\<close>.
\<close>

record nvd_reference =
  ref_url :: string
  ref_source :: string
  ref_tags :: "string list"

record nvd_cve =
  published :: string
  cve_references :: "nvd_reference list"
  workarounds :: "json list"

datatype http_outcome = RequestException | RateLimited | Document "nvd_cve list"

text \<open>
  The world outside the process: the value of the \<open>k\<close>-th reading of \<open>time.time()\<close> and
  the outcome of the \<open>k\<close>-th request of the run (for a CVE id and an API key).
\<close>

record world =
  now :: "nat \<Rightarrow> rat"
  respond :: "nat \<Rightarrow> pyval \<Rightarrow> nat \<Rightarrow> http_outcome"

text \<open>
  The state the lookup client works on: the cache dict it is handed, the two globals of
  the module, and three counters of what it has done (clock readings, requests sent,
  seconds slept).
\<close>

record api_state =
  job_cve_cache :: cve_cache
  api_key_index :: nat
  request_count :: nat
  clock_reads :: nat
  requests_sent :: nat
  slept :: nat

definition NVD_RETRY_ATTEMPTS :: nat where "NVD_RETRY_ATTEMPTS = 5"
definition NVD_RETRY_DELAY :: nat where "NVD_RETRY_DELAY = 5"

text \<open>\<open>API_KEYS\<close> has four keys; a key is named by its index.\<close>

definition API_KEYS_length :: nat where "API_KEYS_length = 4"

definition get_api_key :: "api_state \<Rightarrow> nat \<times> api_state" where
  "get_api_key st =
     (let st = (if request_count st \<ge> 1000
                then st\<lparr>api_key_index := (api_key_index st + 1) mod API_KEYS_length,
                        request_count := 0\<rparr>
                else st);
          st = st\<lparr>request_count := request_count st + 1\<rparr>
      in (api_key_index st, st))"

definition time_time :: "world \<Rightarrow> api_state \<Rightarrow> rat \<times> api_state" where
  "time_time w st = (now w (clock_reads st), st\<lparr>clock_reads := clock_reads st + 1\<rparr>)"

definition time_sleep :: "nat \<Rightarrow> api_state \<Rightarrow> api_state" where
  "time_sleep seconds st = st\<lparr>slept := slept st + seconds\<rparr>"

definition requests_get :: "world \<Rightarrow> pyval \<Rightarrow> nat \<Rightarrow> api_state \<Rightarrow> http_outcome \<times> api_state" where
  "requests_get w cve_id key st =
     (respond w (requests_sent st) cve_id key, st\<lparr>requests_sent := requests_sent st + 1\<rparr>)"

text \<open>The entry stored when the lookup gives nothing.\<close>

definition not_found_entry :: cache_entry where
  "not_found_entry =
     \<lparr> date_obj = PyNone,
       patch_info = \<lparr> status = PyStr ''CVE Not Found'', references = JArr [] \<rparr> \<rparr>"

text \<open>\<open>job_cve_cache[cve_id] = entry; return job_cve_cache[cve_id]\<close>.\<close>

definition store_and_return ::
    "pyval \<Rightarrow> cache_entry \<Rightarrow> api_state \<Rightarrow> (error + cache_entry) \<times> api_state" where
  "store_and_return cve_id entry st =
     (Inr entry, st\<lparr>job_cve_cache := dict_set (job_cve_cache st) cve_id entry\<rparr>)"

text \<open>A reference is patch evidence when one of its tags, lower-cased, is in the list.\<close>

definition is_patch_reference :: "runtime \<Rightarrow> nvd_reference \<Rightarrow> bool" where
  "is_patch_reference rt ref =
     list_ex (\<lambda>tag. str_lower rt tag \<in> set [''patch'', ''vendor advisory'', ''third party advisory''])
       (ref_tags ref)"

definition patch_link :: "nvd_reference \<Rightarrow> json" where
  "patch_link ref =
     JObj [(''url'', JStr (ref_url ref)), (''source'', JStr (ref_source ref)),
           (''tags'', JArr (map JStr (ref_tags ref)))]"

text \<open>
  The body of the branch \<open>if vulnerabilities:\<close>, on the first "cve" object: the entry to
  store, or the ValueError of \<open>strptime\<close> on a date it cannot read.
\<close>

definition entry_of_cve :: "runtime \<Rightarrow> nvd_cve \<Rightarrow> error + cache_entry" where
  "entry_of_cve rt cve_data =
     (let published_raw = published cve_data in
      ebind (if published_raw \<noteq> []
             then (case strptime_ymd rt (takeWhile (\<lambda>c. c \<noteq> CHR ''T'') published_raw) of
                     None \<Rightarrow> Inl ValueError
                   | Some iso_date \<Rightarrow> Inr (PyStr iso_date))
             else Inr PyNone) (\<lambda>published_date.
      let patch_links = map patch_link (filter (is_patch_reference rt) (cve_references cve_data));
          status = (if patch_links \<noteq> [] then ''Available''
                    else if workarounds cve_data \<noteq> [] then ''Workaround Available''
                    else ''Not Found'')
      in Inr \<lparr> date_obj = published_date,
               patch_info = \<lparr> status = PyStr status, references = JArr patch_links \<rparr> \<rparr>))"

text \<open>
  The loop \<open>for attempt in range(NVD_RETRY_ATTEMPTS)\<close> with what follows it:
  \<open>remaining\<close> counts the iterations still to run from \<open>attempt\<close> on.
\<close>

fun attempts ::
    "world \<Rightarrow> runtime \<Rightarrow> pyval \<Rightarrow> nat \<Rightarrow> rat \<Rightarrow> rat \<Rightarrow> nat \<Rightarrow> nat \<Rightarrow> api_state
       \<Rightarrow> (error + cache_entry) \<times> api_state" where
  "attempts w rt cve_id key start_time timeout_threshold 0 attempt st =
     store_and_return cve_id not_found_entry st"
| "attempts w rt cve_id key start_time timeout_threshold (Suc remaining) attempt st =
     (let (t, st) = time_time w st in
      if t - start_time > timeout_threshold
      then store_and_return cve_id not_found_entry st
      else
        let (response, st) = requests_get w cve_id key st in
        case response of
          RateLimited \<Rightarrow>
            attempts w rt cve_id key start_time timeout_threshold remaining (attempt + 1)
              (time_sleep (NVD_RETRY_DELAY * (attempt + 1)) st)
        | RequestException \<Rightarrow>
            attempts w rt cve_id key start_time timeout_threshold remaining (attempt + 1)
              (time_sleep (NVD_RETRY_DELAY * (attempt + 1)) st)
        | Document vulnerabilities \<Rightarrow>
            (case vulnerabilities of
               [] \<Rightarrow> attempts w rt cve_id key start_time timeout_threshold remaining
                       (attempt + 1) st
             | cve_data # others \<Rightarrow>
                 (case entry_of_cve rt cve_data of
                    Inl e \<Rightarrow> (Inl e, st)
                  | Inr entry \<Rightarrow> store_and_return cve_id entry st)))"

definition fetch_cve_details ::
    "world \<Rightarrow> runtime \<Rightarrow> pyval \<Rightarrow> api_state \<Rightarrow> rat \<Rightarrow> (error + cache_entry) \<times> api_state" where
  "fetch_cve_details w rt cve_id st timeout_threshold =
     (case map_of (job_cve_cache st) cve_id of
        Some entry \<Rightarrow> (Inr entry, st)
      | None \<Rightarrow>
          let (key, st) = get_api_key st;
              (start_time, st) = time_time w st
          in attempts w rt cve_id key start_time timeout_threshold NVD_RETRY_ATTEMPTS 0 st)"

section \<open>cache.py\<close>

text \<open>
  The cache file. What \<open>to_csv\<close> writes is a table of texts: the header and one line
  of cells per row (the quoting of the CSV format is pandas' own business: a cell is read
  back with the text that was written). A file of any other content is one that
  \<open>read_csv\<close> cannot parse. The file system maps paths to files; \<open>can_write\<close> tells
  whether the directories of a path can be made and the file written or removed.
\<close>

record csv_table =
  header :: "string list"
  lines :: "string list list"

datatype file_content = CsvFile csv_table | OtherFile

record filesystem =
  files :: "string \<rightharpoonup> file_content"
  can_write :: "string \<Rightarrow> bool"

definition DEFAULT_CACHE_DIR :: string where "DEFAULT_CACHE_DIR = ''cache''"
definition DEFAULT_CACHE_FILE :: string where "DEFAULT_CACHE_FILE = ''cve_cache.csv''"

text \<open>\<open>os.path.join\<close> and \<open>os.path.dirname\<close> on POSIX paths.\<close>

definition os_path_join :: "string \<Rightarrow> string \<Rightarrow> string" where
  "os_path_join a b =
     (if starts_with b ''/'' then b
      else if a = [] \<or> last a = CHR ''/'' then a @ b
      else a @ ''/'' @ b)"

definition os_path_dirname :: "string \<Rightarrow> string" where
  "os_path_dirname p =
     (let head = rev (dropWhile (\<lambda>c. c \<noteq> CHR ''/'') (rev p)) in
      if head \<noteq> [] \<and> \<not> list_all (\<lambda>c. c = CHR ''/'') head
      then rev (dropWhile (\<lambda>c. c = CHR ''/'') (rev head))
      else head)"

definition get_cache_path :: "string \<Rightarrow> string" where
  "get_cache_path output_dir =
     (let cache_dir = os_path_join (if output_dir \<noteq> [] then output_dir else ''.'')
                        DEFAULT_CACHE_DIR;
          cache_file = DEFAULT_CACHE_FILE
      in os_path_join cache_dir cache_file)"

text \<open>The texts that \<open>read_csv\<close> takes for a missing value.\<close>

definition na_values :: "string list" where
  "na_values =
     ['''', ''#N/A'', ''#N/A N/A'', ''#NA'', ''-1.#IND'', ''-1.#QNAN'', ''-NaN'', ''-nan'',
      ''1.#IND'', ''1.#QNAN'', ''<NA>'', ''N/A'', ''NA'', ''NULL'', ''NaN'', ''None'', ''n/a'',
      ''nan'', ''null'']"

text \<open>The text \<open>to_csv\<close> writes for a cell: nothing for a missing value.\<close>

fun cell_text :: "runtime \<Rightarrow> pyval \<Rightarrow> string" where
  "cell_text rt PyNone = []"
| "cell_text rt PyNaN = []"
| "cell_text rt (PyNum x) = str_of_num rt x"
| "cell_text rt (PyStr s) = s"

definition to_csv :: "runtime \<Rightarrow> dataframe \<Rightarrow> csv_table" where
  "to_csv rt df =
     \<lparr> header = columns df,
       lines = map (\<lambda>row. map (\<lambda>c. cell_text rt (cell row c)) (columns df)) (rows df) \<rparr>"

text \<open>
  A column read back: NaN for an NA marker; the other cells are numbers when the column
  is inferred to be numeric, and the texts written otherwise.
\<close>

fun fill_values :: "string list \<Rightarrow> pyval list \<Rightarrow> pyval list" where
  "fill_values [] vs = []"
| "fill_values (t # ts) vs =
     (if t \<in> set na_values then PyNaN # fill_values ts vs
      else case vs of [] \<Rightarrow> PyNaN # fill_values ts [] | v # vs' \<Rightarrow> v # fill_values ts vs')"

definition read_column :: "runtime \<Rightarrow> string list \<Rightarrow> pyval list" where
  "read_column rt texts =
     (case csv_convert rt (filter (\<lambda>t. t \<notin> set na_values) texts) of
        None \<Rightarrow> map (\<lambda>t. if t \<in> set na_values then PyNaN else PyStr t) texts
      | Some vals \<Rightarrow> fill_values texts vals)"

text \<open>The cell of a line under the \<open>j\<close>-th name of the header (empty when the line is short).\<close>

definition line_cell :: "string list \<Rightarrow> nat \<Rightarrow> string" where
  "line_cell line j = (if j < length line then line ! j else [])"

text \<open>
  \<open>pd.read_csv\<close>: ParserError on a file it cannot parse, EmptyDataError on a file
  without columns; otherwise the table, built column by column (the names of the header
  are distinct, as \<open>to_csv\<close> writes them).
\<close>

definition read_csv :: "runtime \<Rightarrow> file_content \<Rightarrow> error + dataframe" where
  "read_csv rt f =
     (case f of
        OtherFile \<Rightarrow> Inl ParserError
      | CsvFile t \<Rightarrow>
          if header t = [] then Inl EmptyDataError
          else Inr (foldl (\<lambda>df (j, name).
                             set_column name
                               (read_column rt (map (\<lambda>line. line_cell line j) (lines t))) df)
                      \<lparr> columns = [], rows = map (\<lambda>line. Map.empty) (lines t) \<rparr>
                      (zip [0 ..< length (header t)] (header t))))"

text \<open>\<open>try: ... except Exception: ...\<close> and the bare \<open>except:\<close>.\<close>

definition try_except_all :: "error + 'a \<Rightarrow> error + 'a \<Rightarrow> error + 'a" where
  "try_except_all body handler = (case body of Inl e \<Rightarrow> handler | Inr v \<Rightarrow> Inr v)"

text \<open>\<open>json.loads(v)\<close>: TypeError on a value that is not a str.\<close>

fun py_json_loads :: "runtime \<Rightarrow> pyval \<Rightarrow> error + json" where
  "py_json_loads rt (PyStr s) =
     (case json_loads rt s of None \<Rightarrow> Inl ValueError | Some j \<Rightarrow> Inr j)"
| "py_json_loads rt _ = Inl TypeError"

text \<open>The loop of \<open>load_cve_cache\<close> over the rows of the file.\<close>

fun load_rows :: "runtime \<Rightarrow> series list \<Rightarrow> cve_cache \<Rightarrow> error + cve_cache" where
  "load_rows rt [] cache = Inr cache"
| "load_rows rt (row # rest) cache =
     ebind (series_index row ''cve_id'') (\<lambda>cve_id.
     ebind (series_index row ''date_obj'') (\<lambda>date_obj.
     ebind (series_index row ''patch_status'') (\<lambda>patch_status.
     ebind (try_except_all
              (ebind (series_index row ''references'') (\<lambda>r.
                 if \<not> pd_isna r then py_json_loads rt r else Inr (JArr [])))
              (Inr (JArr []))) (\<lambda>references.
     load_rows rt rest
       (dict_set cache cve_id
          \<lparr> date_obj = (if \<not> pd_isna date_obj then date_obj else PyNone),
            patch_info = \<lparr> status = patch_status, references = references \<rparr> \<rparr>)))))"

definition load_cve_cache :: "runtime \<Rightarrow> filesystem \<Rightarrow> string \<Rightarrow> cve_cache" where
  "load_cve_cache rt fs cache_file_path =
     (case try_except_all
             (case files fs cache_file_path of
                None \<Rightarrow> Inr []
              | Some f \<Rightarrow> ebind (read_csv rt f) (\<lambda>cache_df. load_rows rt (rows cache_df) []))
             (Inr [])
      of Inl e \<Rightarrow> [] | Inr cache \<Rightarrow> cache)"

text \<open>
  \<open>ensure_dir_exists\<close>: \<open>os.makedirs\<close> raises FileNotFoundError on the empty path, and
  OSError where the directories cannot be made.
\<close>

definition ensure_dir_exists :: "filesystem \<Rightarrow> string \<Rightarrow> string \<Rightarrow> error + string" where
  "ensure_dir_exists fs directory file_path =
     (if directory = [] then Inl FileNotFoundError
      else if \<not> can_write fs file_path then Inl OSError
      else Inr directory)"

text \<open>The row \<open>save_cve_cache\<close> writes for an entry.\<close>

definition cache_row :: "runtime \<Rightarrow> pyval \<times> cache_entry \<Rightarrow> series" where
  "cache_row rt item =
     (case item of (cve_id, details) \<Rightarrow>
        [''cve_id'' \<mapsto> cve_id,
         ''date_obj'' \<mapsto> date_obj details,
         ''patch_status'' \<mapsto> status (patch_info details),
         ''references'' \<mapsto> PyStr (json_dumps rt (references (patch_info details))),
         ''cached_date'' \<mapsto> PyStr (today_ymd rt)])"

text \<open>\<open>pd.DataFrame(records)\<close> for records of the same keys: no column when there is no record.\<close>

definition DataFrame :: "string list \<Rightarrow> series list \<Rightarrow> dataframe" where
  "DataFrame keys records = \<lparr> columns = (if records = [] then [] else keys), rows = records \<rparr>"

definition save_cve_cache ::
    "runtime \<Rightarrow> filesystem \<Rightarrow> cve_cache \<Rightarrow> string \<Rightarrow> bool \<times> filesystem" where
  "save_cve_cache rt fs cache cache_file_path =
     (let cache_data = map (cache_row rt) cache;
          cache_df = DataFrame [''cve_id'', ''date_obj'', ''patch_status'', ''references'',
                                ''cached_date''] cache_data
      in case ebind (ensure_dir_exists fs (os_path_dirname cache_file_path) cache_file_path)
                (\<lambda>d. Inr (fs\<lparr>files := (files fs)(cache_file_path \<mapsto> CsvFile (to_csv rt cache_df))\<rparr>))
         of Inl e \<Rightarrow> (False, fs) | Inr fs' \<Rightarrow> (True, fs'))"

definition clear_cache :: "filesystem \<Rightarrow> string \<Rightarrow> bool \<times> filesystem" where
  "clear_cache fs cache_file_path =
     (if files fs cache_file_path \<noteq> None
      then (if can_write fs cache_file_path
            then (True, fs\<lparr>files := (files fs)(cache_file_path := None)\<rparr>)
            else (False, fs))
      else (True, fs))"

section \<open>scoring.py: the columns\<close>

text \<open>\<open>df[c] = df[source].apply(f)\<close> for a function that may raise.\<close>

definition apply_column ::
    "string \<Rightarrow> string \<Rightarrow> (pyval \<Rightarrow> error + string) \<Rightarrow> dataframe \<Rightarrow> error + dataframe" where
  "apply_column c source f df =
     ebind (column df source) (\<lambda>vals.
     ebind (emap f vals) (\<lambda>cats. Inr (set_column c (map PyStr cats) df)))"

text \<open>One of the three blocks "add the category if the score is available".\<close>

definition score_column ::
    "string \<Rightarrow> string \<Rightarrow> (pyval \<Rightarrow> error + string) \<Rightarrow> dataframe \<Rightarrow> error + dataframe" where
  "score_column c source f df =
     (if source \<in> set (columns df) then apply_column c source f df else Inr df)"

text \<open>The last block: the exploitability score, when its three columns are there.\<close>

definition add_exploitability_score :: "dataframe \<Rightarrow> dataframe" where
  "add_exploitability_score result_df =
     (if list_all (\<lambda>col. col \<in> set (columns result_df))
          [''EPSS Category'', ''VPR Category'', ''KEV Listed'']
      then assign ''Exploitability Score''
             (\<lambda>row. PyNum (of_int (calculate_exploitability_score row))) result_df
      else result_df)"

definition add_scoring_data :: "runtime \<Rightarrow> dataframe \<Rightarrow> error + dataframe" where
  "add_scoring_data rt df =
     ebind (score_column ''CVSS Category'' ''CVSS v3.0 Base Score''
              (categorize_cvss_score rt) df) (\<lambda>result_df.
     ebind (score_column ''EPSS Category'' ''EPSS Score''
              (categorize_epss_score rt) result_df) (\<lambda>result_df.
     ebind (score_column ''VPR Category'' ''VPR Score''
              (categorize_vpr_score rt) result_df) (\<lambda>result_df.
     Inr (add_exploitability_score result_df))))"

section \<open>analysis.py: the analysis stage\<close>

text \<open>The three lambdas that read the cache and the KEV set for a CVE cell.\<close>

definition cve_published_date :: "cve_cache \<Rightarrow> pyval \<Rightarrow> pyval" where
  "cve_published_date cve_cache x =
     (if \<not> pd_isna x
      then (case map_of cve_cache x of None \<Rightarrow> PyNone | Some entry \<Rightarrow> date_obj entry)
      else PyNone)"

fun py_str :: "runtime \<Rightarrow> pyval \<Rightarrow> string" where
  "py_str rt (PyStr s) = s"
| "py_str rt (PyNum x) = str_of_num rt x"
| "py_str rt PyNaN = ''nan''"
| "py_str rt PyNone = ''None''"

definition kev_listed :: "runtime \<Rightarrow> string list \<Rightarrow> pyval \<Rightarrow> pyval" where
  "kev_listed rt kev_set x =
     (if \<not> pd_isna x \<and> py_str rt x \<in> set kev_set then PyStr ''Yes'' else PyStr ''No'')"

definition patch_status :: "cve_cache \<Rightarrow> pyval \<Rightarrow> pyval" where
  "patch_status cve_cache x =
     (if \<not> pd_isna x
      then (case map_of cve_cache x of
              None \<Rightarrow> PyStr ''Unknown'' | Some entry \<Rightarrow> status (patch_info entry))
      else PyStr ''Unknown'')"

text \<open>
  The lambda of "Days After Discovery": \<open>fromisoformat\<close> raises TypeError on a value
  that is not a str, ValueError on a text that is not a date.
\<close>

definition days_after_discovery :: "runtime \<Rightarrow> pyval \<Rightarrow> error + pyval" where
  "days_after_discovery rt x =
     (if \<not> pd_isna x \<and> py_truthy x
      then (case x of
              PyStr s \<Rightarrow> (case days_since rt s of
                             None \<Rightarrow> Inl ValueError
                           | Some n \<Rightarrow> Inr (PyNum (of_int n)))
            | _ \<Rightarrow> Inl TypeError)
      else Inr PyNone)"

text \<open>\<open>~df["Risk"].isin(["None", "Informational"])\<close> on one row.\<close>

definition not_informational :: "series \<Rightarrow> bool" where
  "not_informational row =
     (cell row ''Risk'' \<notin> set [PyStr ''None'', PyStr ''Informational''])"

text \<open>\<open>df[mask]\<close> for a mask computed from the column "Risk": KeyError without the column.\<close>

definition filter_by_risk :: "(series \<Rightarrow> bool) \<Rightarrow> dataframe \<Rightarrow> error + dataframe" where
  "filter_by_risk p df =
     (if ''Risk'' \<in> set (columns df) then Inr (filter_rows p df) else Inl KeyError)"

text \<open>
  The analysis results. Eight of the nine summaries (risk counts, top CVEs, counts by
  host, patch summary, bucket summary, SEoL summary, scoring summary, insights) are
  pandas aggregations that no theorem here looks into: \<open>summaries\<close> stands for the
  eight functions \<open>generate_...\<close> in the order of the dict, each applied to the
  analyzed table and to nothing else; the first exception of one of them ends the
  stage. The ninth is \<open>generate_common_critical\<close>.
\<close>

record 'v results =
  summaries_of :: 'v
  common_critical_of :: "series list"

text \<open>
  The first half of \<open>analyze_vulnerability_data\<close>: the four columns read from the CVE
  column, the cache and the KEV set.
\<close>

definition add_cve_columns ::
    "runtime \<Rightarrow> string list \<Rightarrow> cve_cache \<Rightarrow> dataframe \<Rightarrow> error + dataframe" where
  "add_cve_columns rt kev_set cve_cache df =
     ebind (column df ''CVE'') (\<lambda>cves.
     let result_df = set_column ''CVE Published Date'' (map (cve_published_date cve_cache) cves) df in
     ebind (column result_df ''CVE Published Date'') (\<lambda>dates.
     ebind (emap (days_after_discovery rt) dates) (\<lambda>days.
     let result_df = set_column ''Days After Discovery'' days result_df in
     ebind (column result_df ''CVE'') (\<lambda>cves.
     let result_df = set_column ''KEV Listed'' (map (kev_listed rt kev_set) cves) result_df in
     ebind (column result_df ''CVE'') (\<lambda>cves.
     Inr (set_column ''Patch Status'' (map (patch_status cve_cache) cves) result_df))))))"

definition analyze_vulnerability_data ::
    "runtime \<Rightarrow> (dataframe \<Rightarrow> error + 'v) \<Rightarrow> dataframe \<Rightarrow> string list \<Rightarrow> cve_cache
       \<Rightarrow> error + (dataframe \<times> dataframe \<times> dataframe \<times> 'v results)" where
  "analyze_vulnerability_data rt summaries df kev_set cve_cache =
     ebind (add_cve_columns rt kev_set cve_cache df) (\<lambda>result_df.
     ebind (filter_by_risk not_informational result_df) (\<lambda>filtered_df.
     let check_needed_df = filter_rows (\<lambda>row. cell row ''Risk'' = PyStr ''Check Needed'') filtered_df;
         analyzed_df = filter_rows (\<lambda>row. cell row ''Risk'' \<noteq> PyStr ''Check Needed'') filtered_df in
     ebind (summaries analyzed_df) (\<lambda>views.
     ebind (generate_common_critical analyzed_df) (\<lambda>common_critical.
     Inr (result_df, check_needed_df, analyzed_df,
          \<lparr> summaries_of = views, common_critical_of = common_critical \<rparr>)))))"

section \<open>core.py\<close>

text \<open>\<open>Series.dropna().unique()\<close>: the values that are not null, each once, in the order of first appearance.\<close>

definition dropna_unique :: "pyval list \<Rightarrow> pyval list" where
  "dropna_unique vals = rev (remdups (rev (filter (\<lambda>v. \<not> pd_isna v) vals)))"

text \<open>The loop over \<open>cves_to_fetch\<close>; an exception of a lookup ends it.\<close>

fun fetch_all ::
    "world \<Rightarrow> runtime \<Rightarrow> pyval list \<Rightarrow> api_state \<Rightarrow> (error + unit) \<times> api_state" where
  "fetch_all w rt [] st = (Inr (), st)"
| "fetch_all w rt (cve # rest) st =
     (case fetch_cve_details w rt cve st 30 of
        (Inl e, st') \<Rightarrow> (Inl e, st')
      | (Inr entry, st') \<Rightarrow> fetch_all w rt rest st')"

text \<open>
  The state of a run: the file system and the state of the lookup client (whose cache
  dict is the local \<open>job_cve_cache\<close> of the pipeline).
\<close>

type_synonym run_state = "filesystem \<times> api_state"

text \<open>
  The pipeline, in the order of the source: the cache is cleared on demand and loaded,
  the table categorized, the informational rows filtered out, the CVEs that the cache
  does not hold looked up, the cache saved, the table scored and analyzed. It returns
  the five results (the input table, the processed table, the check-needed table, the
  analyzed table, the analysis results) or the exception that ended it, and the state
  it leaves.
\<close>

definition process_vulnerability_data ::
    "world \<Rightarrow> runtime \<Rightarrow> mappings \<Rightarrow> mappings \<Rightarrow> (dataframe \<Rightarrow> error + 'v) \<Rightarrow> dataframe
       \<Rightarrow> string list \<Rightarrow> string \<Rightarrow> bool \<Rightarrow> run_state
       \<Rightarrow> (error + (dataframe \<times> dataframe \<times> dataframe \<times> dataframe \<times> 'v results)) \<times> run_state" where
  "process_vulnerability_data w rt NAME_MAPPINGS BUCKET_MAPPINGS summaries vuln_df kev_set
       output_dir clear_cache_flag state =
     (let (fs, st) = state;
          cache_file_path = get_cache_path output_dir;
          fs = (if clear_cache_flag then snd (clear_cache fs cache_file_path) else fs);
          st = st\<lparr>job_cve_cache := load_cve_cache rt fs cache_file_path\<rparr>
      in case categorize_vulnerabilities rt NAME_MAPPINGS BUCKET_MAPPINGS vuln_df of
           Inl e \<Rightarrow> (Inl e, (fs, st))
         | Inr df \<Rightarrow>
             (case ebind (filter_by_risk not_informational df) (\<lambda>working_df.
                   ebind (column working_df ''CVE'') (\<lambda>cves. Inr (working_df, cves))) of
                Inl e \<Rightarrow> (Inl e, (fs, st))
              | Inr (working_df, cves) \<Rightarrow>
                  let unique_cves = dropna_unique cves;
                      cves_to_fetch =
                        filter (\<lambda>cve. map_of (job_cve_cache st) cve = None) unique_cves
                  in (case fetch_all w rt cves_to_fetch st of
                        (Inl e, st) \<Rightarrow> (Inl e, (fs, st))
                      | (Inr u, st) \<Rightarrow>
                          let fs = snd (save_cve_cache rt fs (job_cve_cache st) cache_file_path)
                          in (ebind (add_scoring_data rt working_df) (\<lambda>scored_df.
                              ebind (analyze_vulnerability_data rt summaries scored_df kev_set
                                       (job_cve_cache st))
                                (\<lambda>(processed_df, check_needed_df, analyzed_df, results_data).
                              Inr (vuln_df, processed_df, check_needed_df, analyzed_df,
                                   results_data))),
                              (fs, st)))))"

section \<open>Statements of the specification\<close>

subsection \<open>What the specification says of the scoring engine\<close>

text \<open>
  The band table of the specification: a score is compared with the four thresholds of
  its metric, from the highest down.
\<close>

definition band :: "rat \<Rightarrow> rat \<Rightarrow> rat \<Rightarrow> rat \<Rightarrow> pyfloat \<Rightarrow> string" where
  "band crit high med low s =
     (if ge_lit s crit then ''Critical''
      else if ge_lit s high then ''High''
      else if ge_lit s med then ''Medium''
      else if ge_lit s low then ''Low''
      else ''Not Assigned'')"

text \<open>
  The numeric reading of an input: a number reads as itself, a text as the float it
  writes; a null input (None, NaN) and a text that writes no float have none.
\<close>

fun numeric_value :: "runtime \<Rightarrow> pyval \<Rightarrow> pyfloat option" where
  "numeric_value rt PyNone = None"
| "numeric_value rt PyNaN = None"
| "numeric_value rt (PyNum x) = Some (Fin x)"
| "numeric_value rt (PyStr s) = float_of_str rt s"

text \<open>The inputs other than an int beyond the range of a float.\<close>

fun in_float_range :: "pyval \<Rightarrow> bool" where
  "in_float_range (PyNum x) = (\<bar>x\<bar> < float_overflow)"
| "in_float_range _ = True"

definition band_of_input :: "rat \<Rightarrow> rat \<Rightarrow> rat \<Rightarrow> rat \<Rightarrow> runtime \<Rightarrow> pyval \<Rightarrow> string" where
  "band_of_input crit high med low rt s =
     (case numeric_value rt s of
        None \<Rightarrow> ''Not Assigned''
      | Some x \<Rightarrow> band crit high med low x)"

text \<open>
  The fixed table of the specification for the exploitability score; a missing value and
  a value that is not in the table count 0.
\<close>

fun table_value :: "pyval option \<Rightarrow> int" where
  "table_value (Some (PyStr s)) =
     (if s = ''Critical'' then 4 else if s = ''High'' then 3 else if s = ''Medium'' then 2
      else if s = ''Low'' then 1 else if s = ''Not Assigned'' then 0
      else if s = ''Yes'' then 4 else if s = ''No'' then 0 else 0)"
| "table_value _ = 0"

subsection \<open>What the specification says of the categorization engine\<close>

text \<open>The seven canonical risk labels of the data model.\<close>

definition canonical_risks :: "pyval set" where
  "canonical_risks =
     {PyStr ''Critical'', PyStr ''High'', PyStr ''Medium'', PyStr ''Low'', PyStr ''None'',
      PyStr ''Informational'', PyStr ''Check Needed''}"

text \<open>
  A declared risk that wins over the name: present (not None, not NaN), not empty (a
  number: not zero) and not the text "None".
\<close>

definition risk_declared :: "pyval \<Rightarrow> bool" where
  "risk_declared risk = (\<not> pd_isna risk \<and> py_truthy risk \<and> risk \<noteq> PyStr ''None'')"

text \<open>The labels the name heuristics can give: a severity of the mapping, or a default.\<close>

definition heuristic_risks :: "mappings \<Rightarrow> pyval set" where
  "heuristic_risks NAME_MAPPINGS =
     PyStr ` ({''Informational'', ''Check Needed''} \<union> fst ` set NAME_MAPPINGS)"

text \<open>A column of the table a stage returns, the exception of the stage kept.\<close>

definition result_column :: "error + dataframe \<Rightarrow> string \<Rightarrow> error + pyval list" where
  "result_column res c = ebind res (\<lambda>df. column df c)"

subsection \<open>What the specification says of the common critical list\<close>

text \<open>The band value of a severity label: Critical 4, High 3, Medium 2, Low 1, else 0.\<close>

fun band_value :: "pyval option \<Rightarrow> int" where
  "band_value (Some (PyStr s)) =
     (if s = ''Critical'' then 4 else if s = ''High'' then 3 else if s = ''Medium'' then 2
      else if s = ''Low'' then 1 else 0)"
| "band_value _ = 0"

definition critical_or_high :: "pyval option \<Rightarrow> bool" where
  "critical_or_high v = (v = Some (PyStr ''Critical'') \<or> v = Some (PyStr ''High''))"

text \<open>
  Two raw scores in descending order, as \<open>sort_values\<close> has it: a null score after
  every other, two numbers by their values.
\<close>

fun score_desc :: "pyval option \<Rightarrow> pyval option \<Rightarrow> bool" where
  "score_desc (Some x) (Some y) = key_le False x y"
| "score_desc _ _ = False"

text \<open>
  A row of the list may stand before another: its Combined Priority is higher, or the
  two are equal and its raw CVSS score is not lower.
\<close>

definition priority_order :: "series \<Rightarrow> series \<Rightarrow> bool" where
  "priority_order a b =
     (case (a ''Combined Priority'', b ''Combined Priority'') of
        (Some (PyNum p), Some (PyNum q)) \<Rightarrow>
          q < p \<or> (q = p \<and> score_desc (a ''CVSS v3.0 Base Score'') (b ''CVSS v3.0 Base Score''))
      | _ \<Rightarrow> False)"

text \<open>
  The four column assignments of \<open>generate_common_critical\<close> taken together, on the
  table and on one row; used in the proofs.
\<close>

definition with_priority :: "dataframe \<Rightarrow> dataframe" where
  "with_priority cc =
     assign ''Combined Priority'' combined_priority
       (assign ''VPR Value'' (\<lambda>row. map_dict band_values (cell row ''VPR Category''))
          (assign ''EPSS Value'' (\<lambda>row. map_dict band_values (cell row ''EPSS Category''))
             (assign ''CVSS Value'' (\<lambda>row. map_dict band_values (cell row ''CVSS Category'')) cc)))"

definition enrich :: "series \<Rightarrow> series" where
  "enrich row =
     (let r1 = row(''CVSS Value'' \<mapsto> map_dict band_values (cell row ''CVSS Category''));
          r2 = r1(''EPSS Value'' \<mapsto> map_dict band_values (cell r1 ''EPSS Category''));
          r3 = r2(''VPR Value'' \<mapsto> map_dict band_values (cell r2 ''VPR Category''))
      in r3(''Combined Priority'' \<mapsto> combined_priority r3))"

text \<open>One key of every record of a list a function returns, the exception kept.\<close>

definition records_key :: "error + series list \<Rightarrow> string \<Rightarrow> error + pyval option list" where
  "records_key res c = ebind res (\<lambda>records. Inr (map (\<lambda>r. r c) records))"

subsection \<open>What the specification says of the lookup client\<close>

text \<open>
  A lookup attempt fails when the request fails (transport failure, error status), is
  rate limited, or succeeds with an empty result set.
\<close>

definition lookup_failed :: "http_outcome \<Rightarrow> bool" where
  "lookup_failed r = (r = RequestException \<or> r = RateLimited \<or> r = Document [])"

text \<open>
  In a call that starts in state \<open>st\<close>, the clock reading before attempt \<open>i\<close> exceeds
  the timeout budget; and the outcome of the request of attempt \<open>i\<close>.
\<close>

definition timed_out :: "world \<Rightarrow> api_state \<Rightarrow> rat \<Rightarrow> nat \<Rightarrow> bool" where
  "timed_out w st budget i =
     (now w (clock_reads st + 1 + i) - now w (clock_reads st) > budget)"

definition attempt_outcome :: "world \<Rightarrow> api_state \<Rightarrow> pyval \<Rightarrow> nat \<Rightarrow> http_outcome" where
  "attempt_outcome w st cve_id i =
     respond w (requests_sent st + i) cve_id (fst (get_api_key st))"

text \<open>
  Every lookup attempt of the call fails: each of the attempts that is reached without
  the budget being exceeded fails. This holds when all the attempts of the retry count
  fail, and when the budget is exceeded after some failed attempts.
\<close>

definition every_attempt_fails :: "world \<Rightarrow> api_state \<Rightarrow> pyval \<Rightarrow> rat \<Rightarrow> bool" where
  "every_attempt_fails w st cve_id budget =
     (\<forall>i < NVD_RETRY_ATTEMPTS.
        (\<forall>j \<le> i. \<not> timed_out w st budget j) \<longrightarrow> lookup_failed (attempt_outcome w st cve_id i))"

subsection \<open>What the specification says of the pipeline\<close>

text \<open>The enriched (processed) table among the five results of the pipeline.\<close>

definition processed_of ::
    "(error + (dataframe \<times> dataframe \<times> dataframe \<times> dataframe \<times> 'v results)) \<times> run_state
       \<Rightarrow> error + dataframe" where
  "processed_of r =
     ebind (fst r) (\<lambda>(original_df, processed_df, check_needed_df, analyzed_df, results_data).
       Inr processed_df)"

text \<open>Every row of the second table has the Risk of some row of the first.\<close>

definition risk_kept :: "dataframe \<Rightarrow> dataframe \<Rightarrow> bool" where
  "risk_kept df d = (\<forall>r' \<in> set (rows d). \<exists>r \<in> set (rows df). cell r' ''Risk'' = cell r ''Risk'')"

subsection \<open>What the specification says of the cache\<close>

text \<open>The columns of the cache file that \<open>load_cve_cache\<close> reads.\<close>

definition cache_columns :: "string list" where
  "cache_columns = [''cve_id'', ''date_obj'', ''patch_status'', ''references'']"

text \<open>The texts of a column in the file that \<open>save_cve_cache\<close> writes for a cache.\<close>

definition saved_texts :: "runtime \<Rightarrow> cve_cache \<Rightarrow> string \<Rightarrow> string list" where
  "saved_texts rt cache c = map (\<lambda>item. cell_text rt (cell (cache_row rt item) c)) cache"

text \<open>
  A column of texts is read back as it was written: every cell that is not empty comes
  back as its text (none is taken for an NA marker, and the column is not taken for a
  column of numbers), an empty cell as NaN.
\<close>

definition read_back_as_written :: "runtime \<Rightarrow> string list \<Rightarrow> bool" where
  "read_back_as_written rt texts =
     (read_column rt texts = map (\<lambda>t. if t = [] then PyNaN else PyStr t) texts)"

text \<open>
  An entry of the cache as the lookup client makes it: the id and the patch status are
  texts that are not empty, the date is None or such a text, and the JSON codec gives
  the reference list back from the text it writes for it.
\<close>

definition text_value :: "pyval \<Rightarrow> bool" where
  "text_value v = (case v of PyStr s \<Rightarrow> s \<noteq> [] | _ \<Rightarrow> False)"

definition well_formed_item :: "runtime \<Rightarrow> pyval \<times> cache_entry \<Rightarrow> bool" where
  "well_formed_item rt item =
     (case item of (cve_id, entry) \<Rightarrow>
        text_value cve_id \<and> text_value (status (patch_info entry)) \<and>
        (date_obj entry = PyNone \<or> text_value (date_obj entry)) \<and>
        json_dumps rt (references (patch_info entry)) \<noteq> [] \<and>
        json_loads rt (json_dumps rt (references (patch_info entry)))
          = Some (references (patch_info entry)))"

text \<open>A stored reference list that cannot be parsed: a text that \<open>json.loads\<close> refuses.\<close>

definition malformed_references :: "runtime \<Rightarrow> series \<Rightarrow> bool" where
  "malformed_references rt row =
     (case row ''references'' of Some (PyStr t) \<Rightarrow> json_loads rt t = None | _ \<Rightarrow> False)"

text \<open>The row of the table \<open>read_csv\<close> returns for an entry of a well-formed cache.\<close>

definition reloaded_row :: "runtime \<Rightarrow> pyval \<times> cache_entry \<Rightarrow> pyval \<Rightarrow> series" where
  "reloaded_row rt item cached =
     (case item of (cve_id, details) \<Rightarrow>
        [''cve_id'' \<mapsto> cve_id,
         ''date_obj'' \<mapsto> (if date_obj details = PyNone then PyNaN else date_obj details),
         ''patch_status'' \<mapsto> status (patch_info details),
         ''references'' \<mapsto> PyStr (json_dumps rt (references (patch_info details))),
         ''cached_date'' \<mapsto> cached])"

section \<open>Concrete inputs\<close>

text \<open>Lower case of the ASCII letters, every other character kept.\<close>

definition ascii_lower :: "string \<Rightarrow> string" where
  "ascii_lower =
     map (\<lambda>c. case map_of (zip ''ABCDEFGHIJKLMNOPQRSTUVWXYZ'' ''abcdefghijklmnopqrstuvwxyz'') c of
                 None \<Rightarrow> c | Some d \<Rightarrow> d)"

text \<open>The reference list of a cache entry, and the JSON text of it.\<close>

definition log4j_references :: json where
  "log4j_references =
     JArr [JObj [(''url'', JStr ''https://logging.apache.org''), (''source'', JStr ''apache''),
                 (''tags'', JArr [JStr ''Patch''])]]"

definition log4j_references_text :: string where
  "log4j_references_text =
     ''[{\"url\": \"https://logging.apache.org\", \"source\": \"apache\", \"tags\": [\"Patch\"]}]''"

text \<open>The value of a text of decimal digits.\<close>

definition digits_value :: "string \<Rightarrow> nat" where
  "digits_value s =
     foldl (\<lambda>n c. 10 * n + (case map_of (zip ''0123456789'' [0, 1, 2, 3, 4, 5, 6, 7, 8, 9]) c of
                                None \<Rightarrow> 0 | Some d \<Rightarrow> d)) 0 s"

text \<open>
  A runtime used to run the definitions on concrete inputs. Its \<open>float\<close> knows two
  texts, its JSON codec two values, and its CSV reader takes a column for numbers when
  every text of it is made of digits.
\<close>

definition demo_runtime :: runtime where
  "demo_runtime =
     \<lparr> float_of_str = (\<lambda>s. if s = ''9.5'' then Some (Fin (19 / 2))
                             else if s = ''nan'' then Some NaN else None),
       str_of_num = (\<lambda>x. ''?''),
       str_lower = ascii_lower,
       strptime_ymd = (\<lambda>s. if s = ''2021-12-10'' then Some s else None),
       days_since = (\<lambda>s. if s = ''2021-12-10'' then Some 1000 else None),
       set_order = (\<lambda>xs. xs),
       json_dumps = (\<lambda>j. if j = JArr [] then ''[]''
                           else if j = log4j_references then log4j_references_text
                           else ''null''),
       json_loads = (\<lambda>s. if s = ''[]'' then Some (JArr [])
                           else if s = log4j_references_text then Some log4j_references
                           else if s = ''null'' then Some JNull
                           else None),
       csv_convert = (\<lambda>texts. if texts \<noteq> [] \<and> list_all (\<lambda>t. t \<noteq> [] \<and> set t \<subseteq> set ''0123456789'') texts
                               then Some (map (\<lambda>t. PyNum (of_nat (digits_value t))) texts)
                               else None),
       today_ymd = ''2026-11-03'' \<rparr>"

text \<open>Two small mappings in the shape of those of \<open>mappings.py\<close>.\<close>

definition demo_name_mappings :: mappings where
  "demo_name_mappings =
     [(''Critical'', [''Remote Code Execution'', ''Log4j'']),
      (''High'', [''SEoL'']),
      (''Medium'', [''Weak Cipher''])]"

definition demo_bucket_mappings :: mappings where
  "demo_bucket_mappings =
     [(''Web Server'', [''Apache'', ''nginx'']),
      (''End of Life'', [''SEoL'']),
      (''Cryptography'', [''cipher'', ''TLS''])]"

text \<open>A table of one finding whose declared risk is a text outside the canonical labels.\<close>

definition severe_table :: dataframe where
  "severe_table =
     \<lparr> columns = [''Name'', ''Risk''],
       rows = [[''Name'' \<mapsto> PyStr ''Apache Log4j SEoL'', ''Risk'' \<mapsto> PyStr ''Severe'']] \<rparr>"

text \<open>A table with a declared risk, an empty one, the text "None" and a finding without a name.\<close>

definition mixed_table :: dataframe where
  "mixed_table =
     \<lparr> columns = [''Name'', ''Risk''],
       rows = [[''Name'' \<mapsto> PyStr ''nginx TLS weak cipher'', ''Risk'' \<mapsto> PyStr ''High''],
               [''Name'' \<mapsto> PyStr ''Apache Log4j SEoL'', ''Risk'' \<mapsto> PyNaN],
               [''Name'' \<mapsto> PyStr ''Service banner'', ''Risk'' \<mapsto> PyStr ''None''],
               [''Name'' \<mapsto> PyNaN, ''Risk'' \<mapsto> PyStr '''']] \<rparr>"

text \<open>An analyzed table of five findings, three of them critical on every metric.\<close>

definition scored_row :: "string \<Rightarrow> rat \<Rightarrow> string \<Rightarrow> string \<Rightarrow> string \<Rightarrow> string \<Rightarrow> series" where
  "scored_row name cvss cvss_cat epss_cat vpr_cat kev =
     [''Name'' \<mapsto> PyStr name, ''CVSS v3.0 Base Score'' \<mapsto> PyNum cvss,
      ''CVSS Category'' \<mapsto> PyStr cvss_cat, ''EPSS Category'' \<mapsto> PyStr epss_cat,
      ''VPR Category'' \<mapsto> PyStr vpr_cat, ''KEV Listed'' \<mapsto> PyStr kev]"

definition analyzed_table :: dataframe where
  "analyzed_table =
     \<lparr> columns = [''Name'', ''CVSS v3.0 Base Score'', ''CVSS Category'', ''EPSS Category'',
                  ''VPR Category'', ''KEV Listed''],
       rows = [scored_row ''a'' (15 / 2) ''High'' ''Critical'' ''Critical'' ''Yes'',
               scored_row ''b'' (49 / 5) ''Critical'' ''Critical'' ''Critical'' ''Yes'',
               scored_row ''c'' 5 ''Medium'' ''Critical'' ''Critical'' ''Yes'',
               scored_row ''d'' (91 / 10) ''Critical'' ''Critical'' ''Critical'' ''No'',
               scored_row ''e'' 8 ''High'' ''Critical'' ''Critical'' ''Yes''] \<rparr>"

text \<open>A fresh client state, a state with one cached entry, and a service that always rate limits.\<close>

definition empty_state :: api_state where
  "empty_state = \<lparr> job_cve_cache = [], api_key_index = 0, request_count = 0,
                    clock_reads = 0, requests_sent = 0, slept = 0 \<rparr>"

definition log4j_entry :: cache_entry where
  "log4j_entry =
     \<lparr> date_obj = PyStr ''2021-12-10'',
       patch_info = \<lparr> status = PyStr ''Available'', references = log4j_references \<rparr> \<rparr>"

definition cached_state :: api_state where
  "cached_state = empty_state\<lparr>job_cve_cache := [(PyStr ''CVE-2021-44228'', log4j_entry)]\<rparr>"

definition rate_limited_world :: world where
  "rate_limited_world = \<lparr> now = (\<lambda>k. of_nat k), respond = (\<lambda>k cve_id key. RateLimited) \<rparr>"

text \<open>
  A scan table of three findings (an empty risk, the text "None", a declared risk), a
  mapping with the label "None", an NVD service that knows one CVE, an empty file
  system that takes every write, and a stand-in for the eight summaries (the number
  of analyzed rows).
\<close>

definition finding :: "string \<Rightarrow> pyval \<Rightarrow> pyval \<Rightarrow> rat \<Rightarrow> rat \<Rightarrow> rat \<Rightarrow> series" where
  "finding name risk cve cvss epss vpr =
     [''Plugin ID'' \<mapsto> PyNum 1, ''CVE'' \<mapsto> cve, ''Host'' \<mapsto> PyStr ''10.0.0.1'',
      ''Name'' \<mapsto> PyStr name, ''Risk'' \<mapsto> risk, ''Solution'' \<mapsto> PyStr ''Apply the update'',
      ''CVSS v3.0 Base Score'' \<mapsto> PyNum cvss, ''EPSS Score'' \<mapsto> PyNum epss,
      ''VPR Score'' \<mapsto> PyNum vpr]"

definition scan_columns :: "string list" where
  "scan_columns = [''Plugin ID'', ''CVE'', ''Host'', ''Name'', ''Risk'', ''Solution'',
                  ''CVSS v3.0 Base Score'', ''EPSS Score'', ''VPR Score'']"

definition scan_table :: dataframe where
  "scan_table =
     \<lparr> columns = scan_columns,
       rows = [finding ''Apache Log4j SEoL'' (PyStr '''') (PyStr ''CVE-2021-44228'') (49 / 5) (93 / 100) (91 / 10),
               finding ''Service banner'' (PyStr ''None'') PyNaN 0 0 0,
               finding ''nginx weak cipher'' (PyStr ''Medium'') (PyStr ''CVE-2016-2183'') (15 / 2) (1 / 2) 5] \<rparr>"

definition none_name_mappings :: mappings where
  "none_name_mappings = [(''Critical'', [''Log4j'']), (''None'', [''banner''])]"

definition nvd_world :: world where
  "nvd_world =
     \<lparr> now = (\<lambda>k. of_nat k),
       respond = (\<lambda>k cve_id key.
         if cve_id = PyStr ''CVE-2021-44228''
         then Document [\<lparr> published = ''2021-12-10T10:15:09.143'',
                           cve_references = [\<lparr> ref_url = ''https://logging.apache.org'',
                                                ref_source = ''apache'', ref_tags = [''Patch''] \<rparr>],
                           workarounds = [] \<rparr>]
         else Document []) \<rparr>"

definition empty_fs :: filesystem where
  "empty_fs = \<lparr> files = Map.empty, can_write = (\<lambda>p. True) \<rparr>"

definition row_count :: "dataframe \<Rightarrow> error + nat" where
  "row_count df = Inr (length (rows df))"

text \<open>A cache of two entries, a cache whose one id is the text "NA", and the path of the cache file.\<close>

definition two_entry_cache :: cve_cache where
  "two_entry_cache =
     [(PyStr ''CVE-2021-44228'', log4j_entry), (PyStr ''CVE-2016-2183'', not_found_entry)]"

definition na_cache :: cve_cache where
  "na_cache = [(PyStr ''NA'', not_found_entry)]"

definition cache_path :: string where
  "cache_path = ''output/cache/cve_cache.csv''"

text \<open>A computation that returns a value, as opposed to raising.\<close>

definition returns :: "error + 'a \<Rightarrow> bool" where
  "returns r = (case r of Inl e \<Rightarrow> False | Inr v \<Rightarrow> True)"

section \<open>Helper lemmas\<close>

lemma returnsE: "returns r \<Longrightarrow> \<exists>v. r = Inr v"
  by (cases r) (auto simp: returns_def)

lemma emap_Inr:
  "emap f xs = Inr ys \<Longrightarrow> length ys = length xs \<and> (\<forall>i < length xs. f (xs ! i) = Inr (ys ! i))"
proof (induction xs arbitrary: ys)
  case Nil
  then show ?case by simp
next
  case (Cons x xs)
  then show ?case
    by (auto split: sum.splits simp: nth_Cons split: nat.splits)
qed

section \<open>Scoring: theorems\<close>

text \<open>The bound written out, for evaluation.\<close>

lemma float_overflow_numeral [code]:
  "float_overflow =
     179769313486231580793728971405303415079934132710037826936173778980444968292764750946649017977587207096330286416692887910946555547851940402630657488671505820681908902000708383676273854845817711531764475730270069855571366959622842914819860834936475292719074168444365510704342711559699508093042880177904174497792"
  by (simp add: float_overflow_def)

lemma categorize_cvss_score_band:
  "in_float_range s \<Longrightarrow>
     categorize_cvss_score rt s = Inr (band_of_input 9 7 4 lit_0_1 rt s)"
  by (cases s)
     (auto simp: categorize_cvss_score_def band_of_input_def band_def
        try_except_def ebind_def split: option.splits)

lemma categorize_vpr_score_band:
  "in_float_range s \<Longrightarrow>
     categorize_vpr_score rt s = Inr (band_of_input 9 7 4 lit_0_1 rt s)"
  by (cases s)
     (auto simp: categorize_vpr_score_def band_of_input_def band_def
        try_except_def ebind_def split: option.splits)

lemma categorize_epss_score_band:
  "in_float_range s \<Longrightarrow>
     categorize_epss_score rt s = Inr (band_of_input lit_0_9 lit_0_7 lit_0_4 lit_0_1 rt s)"
  by (cases s)
     (auto simp: categorize_epss_score_def band_of_input_def band_def
        try_except_def ebind_def split: option.splits)

text \<open>
  On every input other than an int beyond the range of a float, each of the three
  mappers returns, gives "Not Assigned" on a null input and on a text that writes no
  float, and bands a numeric input by the thresholds of its metric (9.0, 7.0, 4.0, 0.1
  for CVSS and VPR; 0.9, 0.7, 0.4, 0.1 for EPSS, each the float the literal denotes).
  In particular 9.0 is Critical, 8.999 is High, 0.0 and null are "Not Assigned".
\<close>

lemma score_categories_in_float_range:
  assumes "in_float_range s"
  shows "categorize_cvss_score rt s = Inr (band_of_input 9 7 4 lit_0_1 rt s)"
    and "categorize_vpr_score rt s = Inr (band_of_input 9 7 4 lit_0_1 rt s)"
    and "categorize_epss_score rt s =
           Inr (band_of_input lit_0_9 lit_0_7 lit_0_4 lit_0_1 rt s)"
    and "numeric_value rt s = None \<Longrightarrow>
           categorize_cvss_score rt s = Inr ''Not Assigned'' \<and>
           categorize_vpr_score rt s = Inr ''Not Assigned'' \<and>
           categorize_epss_score rt s = Inr ''Not Assigned''"
  using assms
  by (simp_all add: categorize_cvss_score_band categorize_vpr_score_band
        categorize_epss_score_band band_of_input_def)

lemma score_categories_examples:
  "categorize_cvss_score rt (PyNum 9) = Inr ''Critical''"
  "categorize_cvss_score rt (PyNum lit_8_999) = Inr ''High''"
  "categorize_cvss_score rt (PyNum 0) = Inr ''Not Assigned''"
  "categorize_cvss_score rt PyNone = Inr ''Not Assigned''"
  "categorize_cvss_score rt PyNaN = Inr ''Not Assigned''"
  by (simp_all add: categorize_cvss_score_def try_except_def ebind_def float_overflow_def
        lit_8_999_def lit_0_1_def)

text \<open>
  C2. The three mappers are to return for every input and never raise. Each guards
  \<open>float(score)\<close> with \<open>except (ValueError, TypeError)\<close>, which leaves out the
  OverflowError that \<open>float\<close> raises on an int beyond the range of a float: on the int
  \<open>10^309\<close> each of the three mappers raises OverflowError.
\<close>

theorem C2_overflow_error_not_caught:
  "categorize_cvss_score rt (PyNum (10 ^ 309)) = Inl OverflowError \<and>
   categorize_vpr_score rt (PyNum (10 ^ 309)) = Inl OverflowError \<and>
   categorize_epss_score rt (PyNum (10 ^ 309)) = Inl OverflowError"
proof -
  have "float_overflow \<le> \<bar>10 ^ 309 :: rat\<bar>"
    by (simp add: float_overflow_def)
  then have "py_float rt (PyNum (10 ^ 309)) = Inl OverflowError"
    by simp
  then show ?thesis
    by (simp add: categorize_cvss_score_def categorize_vpr_score_def
        categorize_epss_score_def try_except_def ebind_def)
qed

text \<open>
  C3. The exploitability score of a row is the sum of three lookups in the fixed table,
  for the EPSS category, the VPR category and the KEV flag of the row, a missing or
  unknown value counting 0; the CVSS category of the row has no part in it.
\<close>

theorem C3_exploitability_score:
  "calculate_exploitability_score row =
     table_value (row ''EPSS Category'') + table_value (row ''VPR Category'')
       + table_value (row ''KEV Listed'') \<and>
   calculate_exploitability_score (row(''CVSS Category'' := v)) =
     calculate_exploitability_score row"
proof -
  have look: "dict_get priority_scores (series_get r c (PyStr d)) 0 = table_value (r c)"
    if "d = ''Not Assigned'' \<or> d = ''No''" for r :: series and c d
  proof (cases "r c")
    case None
    with that show ?thesis
      by (auto simp: dict_get_def series_get_def priority_scores_def)
  next
    case (Some x)
    then show ?thesis
      by (cases x) (auto simp: dict_get_def series_get_def priority_scores_def)
  qed
  have sum: "calculate_exploitability_score r =
     table_value (r ''EPSS Category'') + table_value (r ''VPR Category'')
       + table_value (r ''KEV Listed'')" for r
    by (simp add: calculate_exploitability_score_def look)
  show ?thesis
    by (simp add: sum)
qed

theorem C3_exploitability_score_witness:
  "calculate_exploitability_score
     [''CVSS Category'' \<mapsto> PyStr ''Critical'', ''EPSS Category'' \<mapsto> PyStr ''High'',
      ''KEV Listed'' \<mapsto> PyStr ''Yes''] = 7"
  using C3_exploitability_score
    [of "[''CVSS Category'' \<mapsto> PyStr ''Critical'', ''EPSS Category'' \<mapsto> PyStr ''High'',
          ''KEV Listed'' \<mapsto> PyStr ''Yes'']"]
  by simp

section \<open>Categorization: theorems\<close>

lemma first_severity_in:
  "first_severity rt nm n = Some s \<Longrightarrow> s \<in> fst ` set nm"
  by (induction rt nm n rule: first_severity.induct) (auto split: if_splits)

lemma assign_severity_result:
  assumes "assign_severity rt nm name er = Inr v"
  shows "\<not> pd_isna v \<and> (if risk_declared er then v = er else v \<in> heuristic_risks nm)"
  using assms
  by (cases name; cases er)
     (auto simp: assign_severity_def risk_declared_def heuristic_risks_def ebind_def
           split: if_splits option.splits dest: first_severity_in)

text \<open>
  C7, as the code has it. After the categorization stage every row has a Risk that is
  not null: the declared risk of the row, unchanged, when it is present, not empty and
  not "None" (whatever its text, canonical or not), and otherwise a label of the name
  heuristics ("Informational", "Check Needed" or a severity of \<open>NAME_MAPPINGS\<close>).
\<close>

theorem C7_risk_after_categorization:
  assumes "categorize_vulnerabilities rt nm bm df = Inr df'"
  shows "length (rows df') = length (rows df) \<and>
         (\<forall>i < length (rows df).
            \<exists>risk. (rows df' ! i) ''Risk'' = Some risk \<and> \<not> pd_isna risk \<and>
              (if risk_declared (series_get (rows df ! i) ''Risk'' PyNone)
               then risk = series_get (rows df ! i) ''Risk'' PyNone
               else risk \<in> heuristic_risks nm))"
proof -
  let ?f = "\<lambda>row. ebind (series_index row ''Name'') (\<lambda>name.
               assign_severity rt nm name (series_get row ''Risk'' PyNone))"
  from assms obtain risks names buckets where
    r: "emap ?f (rows df) = Inr risks" and
    n: "column (set_column ''Risk'' risks df) ''Name'' = Inr names" and
    b: "emap (categorize_name rt bm) names = Inr buckets" and
    d: "df' = set_column ''Bucket'' (map PyStr buckets) (set_column ''Risk'' risks df)"
    by (auto simp: categorize_vulnerabilities_def ebind_def Let_def split: sum.splits)
  from emap_Inr [OF r] have lr: "length risks = length (rows df)"
    and fr: "\<And>i. i < length (rows df) \<Longrightarrow> ?f (rows df ! i) = Inr (risks ! i)"
    by auto
  from n have ln: "length names = length (rows df)"
    by (auto simp: column_def set_column_def lr split: if_splits)
  from emap_Inr [OF b] have lb: "length buckets = length (rows df)"
    by (simp add: ln)
  have len: "length (rows df') = length (rows df)"
    by (simp add: d set_column_def lr lb)
  have risk: "(rows df' ! i) ''Risk'' = Some (risks ! i)" if "i < length (rows df)" for i
    using that by (simp add: d set_column_def lr lb)
  have "\<not> pd_isna (risks ! i) \<and>
        (if risk_declared (series_get (rows df ! i) ''Risk'' PyNone)
         then risks ! i = series_get (rows df ! i) ''Risk'' PyNone
         else risks ! i \<in> heuristic_risks nm)" if "i < length (rows df)" for i
  proof -
    from fr [OF that] obtain name where
      "assign_severity rt nm name (series_get (rows df ! i) ''Risk'' PyNone) = Inr (risks ! i)"
      by (auto simp: ebind_def split: sum.splits)
    then show ?thesis by (rule assign_severity_result)
  qed
  with len risk show ?thesis by simp
qed

theorem C7_risk_after_categorization_witness:
  "\<exists>df'. categorize_vulnerabilities demo_runtime demo_name_mappings demo_bucket_mappings
            mixed_table = Inr df' \<and>
         length (rows df') = 4 \<and>
         (\<forall>i < 4. \<exists>risk. (rows df' ! i) ''Risk'' = Some risk \<and> \<not> pd_isna risk)"
proof -
  have "returns (categorize_vulnerabilities demo_runtime demo_name_mappings
                   demo_bucket_mappings mixed_table)"
    by code_simp
  then obtain df' where h: "categorize_vulnerabilities demo_runtime demo_name_mappings
      demo_bucket_mappings mixed_table = Inr df'"
    using returnsE by blast
  have l: "length (rows mixed_table) = 4"
    by (simp add: mixed_table_def)
  from C7_risk_after_categorization [OF h] l have "length (rows df') = 4 \<and>
      (\<forall>i < 4. \<exists>risk. (rows df' ! i) ''Risk'' = Some risk \<and> \<not> pd_isna risk)"
    by auto
  with h show ?thesis by blast
qed

text \<open>
  C7 as it is written fails: a declared risk that is a text outside the seven canonical
  labels is kept as it is.
\<close>

theorem C7_noncanonical_risk_kept:
  "result_column (categorize_vulnerabilities demo_runtime demo_name_mappings
      demo_bucket_mappings severe_table) ''Risk'' = Inr [PyStr ''Severe''] \<and>
   PyStr ''Severe'' \<notin> canonical_risks"
proof
  show "result_column (categorize_vulnerabilities demo_runtime demo_name_mappings
      demo_bucket_mappings severe_table) ''Risk'' = Inr [PyStr ''Severe'']"
    by code_simp
  show "PyStr ''Severe'' \<notin> canonical_risks"
    by (simp add: canonical_risks_def)
qed

lemma py_join_nonempty: "ys \<noteq> [] \<Longrightarrow> [] \<notin> set ys \<Longrightarrow> py_join sep ys \<noteq> []"
  by (induction sep ys rule: py_join.induct) auto

lemma matched_buckets_subset: "set (matched_buckets rt bm n) \<subseteq> fst ` set bm"
  by (auto simp: matched_buckets_def)

text \<open>
  C8, as the code has it. For a name that is present (a text, the empty text too)
  \<open>categorize_name\<close> returns a bucket string that is not empty, "Miscellaneous" when
  no bucket matches; for a missing name (None, NaN) it returns the empty string. The
  buckets of \<open>BUCKET_MAPPINGS\<close> have names that are not empty, and a set iterates over
  its elements.
\<close>

theorem C8_bucket_assignment:
  assumes "\<forall>xs. set (set_order rt xs) = set xs" and "[] \<notin> fst ` set bm"
  shows "categorize_name rt bm PyNone = Inr [] \<and> categorize_name rt bm PyNaN = Inr [] \<and>
         (\<exists>bucket. categorize_name rt bm (PyStr name) = Inr bucket \<and> bucket \<noteq> [] \<and>
            (matched_buckets rt bm (str_lower rt name) = [] \<longrightarrow> bucket = ''Miscellaneous''))"
proof -
  let ?m = "matched_buckets rt bm (str_lower rt name)"
  have "py_join '', '' (set_order rt ?m) \<noteq> []" if "?m \<noteq> []"
  proof (rule py_join_nonempty)
    from assms(1) have s: "set (set_order rt ?m) = set ?m" by simp
    with that show "set_order rt ?m \<noteq> []" by (metis set_empty)
    from s matched_buckets_subset [of rt bm "str_lower rt name"] assms(2)
    show "[] \<notin> set (set_order rt ?m)" by auto
  qed
  then show ?thesis
    by (auto simp: categorize_name_def ebind_def Let_def)
qed

theorem C8_bucket_assignment_witness:
  "(\<forall>xs. set (set_order demo_runtime xs) = set xs) \<and>
   [] \<notin> fst ` set demo_bucket_mappings \<and>
   (\<exists>bucket. categorize_name demo_runtime demo_bucket_mappings (PyStr ''Apache Log4j SEoL'')
       = Inr bucket \<and> bucket \<noteq> [])"
proof -
  have a: "\<forall>xs. set (set_order demo_runtime xs) = set xs"
    by (simp add: demo_runtime_def)
  have b: "[] \<notin> fst ` set demo_bucket_mappings"
    by (simp add: demo_bucket_mappings_def)
  from C8_bucket_assignment [OF a b, of "''Apache Log4j SEoL''"] a b show ?thesis
    by blast
qed

text \<open>C8 as it is written fails for a missing name: the bucket string is empty.\<close>

theorem C8_missing_name_empty_bucket:
  "categorize_name demo_runtime demo_bucket_mappings PyNaN = Inr []"
  by (simp add: categorize_name_def)

section \<open>Common critical list: theorems\<close>

lemma set_insert_by: "set (insert_by le x xs) = insert x (set xs)"
  by (induction xs) auto

lemma set_sort_by: "set (sort_by le xs) = set xs"
  by (induction xs) (auto simp: sort_by_def set_insert_by)

lemma sorted_insert_by:
  assumes total: "\<And>a b. le a b \<or> le b a"
    and trans: "\<And>a b c. le a b \<Longrightarrow> le b c \<Longrightarrow> le a c"
  shows "sorted_wrt le xs \<Longrightarrow> sorted_wrt le (insert_by le x xs)"
proof (induction xs)
  case Nil
  then show ?case by simp
next
  case (Cons y ys)
  show ?case
  proof (cases "le x y")
    case True
    with Cons.prems trans show ?thesis by auto
  next
    case False
    with total have "le y x" by blast
    with Cons False show ?thesis by (auto simp: set_insert_by)
  qed
qed

lemma sorted_sort_by:
  assumes "\<And>a b. le a b \<or> le b a" and "\<And>a b c. le a b \<Longrightarrow> le b c \<Longrightarrow> le a c"
  shows "sorted_wrt le (sort_by le xs)"
proof (induction xs)
  case Nil
  then show ?case by (simp add: sort_by_def)
next
  case (Cons x xs)
  have "sort_by le (x # xs) = insert_by le x (sort_by le xs)"
    by (simp add: sort_by_def)
  with Cons sorted_insert_by [of le, OF assms] show ?case by simp
qed

lemma value_le_total: "\<not> pd_isna x \<Longrightarrow> \<not> pd_isna y \<Longrightarrow> value_le x y \<or> value_le y x"
  by (cases x; cases y) auto

lemma value_le_trans:
  "\<not> pd_isna y \<Longrightarrow> value_le x y \<Longrightarrow> value_le y z \<Longrightarrow> value_le x z"
  by (cases x; cases y; cases z) auto

lemma key_le_total: "key_le asc x y \<or> key_le asc y x"
  using value_le_total [of x y] value_le_total [of y x] by (auto simp: key_le_def)

lemma key_le_trans: "key_le asc x y \<Longrightarrow> key_le asc y z \<Longrightarrow> key_le asc x z"
  using value_le_trans [of y x z] value_le_trans [of y z x] by (auto simp: key_le_def)

lemma rows_le_total: "rows_le ks a b \<or> rows_le ks b a"
proof (induction ks a b rule: rows_le.induct)
  case (1 a b)
  then show ?case by simp
next
  case (2 k asc ks a b)
  with key_le_total [of asc "cell a k" "cell b k"] show ?case by auto
qed

lemma rows_le_trans: "rows_le ks a b \<Longrightarrow> rows_le ks b c \<Longrightarrow> rows_le ks a c"
proof (induction ks)
  case Nil
  then show ?case by simp
next
  case (Cons ka ks)
  obtain k asc where ka: "ka = (k, asc)" by (cases ka)
  let ?le = "\<lambda>u v. key_le asc (cell u k) (cell v k)"
  have tr: "\<And>u v w. ?le u v \<Longrightarrow> ?le v w \<Longrightarrow> ?le u w"
    by (rule key_le_trans)
  show ?case
  proof (cases "?le a b \<and> ?le b a")
    case ab: True
    show ?thesis
    proof (cases "?le b c \<and> ?le c b")
      case bc: True
      with ab tr have "?le a c \<and> ?le c a" by blast
      with ab bc Cons show ?thesis by (simp add: ka)
    next
      case bc: False
      with Cons.prems(2) have 1: "?le b c" "\<not> ?le c b" by (auto simp: ka)
      with ab tr have "?le a c" "\<not> ?le c a" by blast+
      then show ?thesis by (simp add: ka)
    qed
  next
    case ab: False
    with Cons.prems(1) have 1: "?le a b" "\<not> ?le b a" by (auto simp: ka)
    have "?le b c" using Cons.prems(2) by (auto simp: ka split: if_splits)
    with 1 tr have "?le a c" "\<not> ?le c a" by blast+
    then show ?thesis by (simp add: ka)
  qed
qed

lemma key_le_clean: "key_le asc (clean_value x) (clean_value y) = key_le asc x y"
  by (cases x; cases y) (auto simp: key_le_def)

lemma map_dict_band:
  "v = PyStr ''Critical'' \<or> v = PyStr ''High'' \<Longrightarrow>
   map_dict band_values v = PyNum (of_int (band_value (Some v)))"
  by (auto simp: map_dict_def band_values_def)

lemma rows_assign: "rows (assign c f df) = map (\<lambda>r. r(c \<mapsto> f r)) (rows df)"
proof -
  have "map (\<lambda>(row, v). row(c \<mapsto> v)) (zip xs (map f xs)) = map (\<lambda>r. r(c \<mapsto> f r)) xs" for xs
    by (induction xs) auto
  then show ?thesis by (simp add: assign_def set_column_def)
qed

lemma columns_assign:
  "columns (assign c f df) = (if c \<in> set (columns df) then columns df else columns df @ [c])"
  by (simp add: assign_def set_column_def)

lemma set_columns_assign: "set (columns (assign c f df)) = insert c (set (columns df))"
  by (auto simp: columns_assign)

lemma gcc_unfold:
  assumes "generate_common_critical df = Inr out" and "out \<noteq> []"
  shows "list_all (\<lambda>col. col \<in> set (columns df)) required_cols \<and>
         ebind (sort_values
             ([''Combined Priority''] @
                (if ''CVSS v3.0 Base Score'' \<in> set (filter (\<lambda>col. col \<in> set (columns (with_priority (filter_rows is_common_critical df)))) required_columns)
                 then [''CVSS v3.0 Base Score''] else []))
             [False, False]
             (select_columns (filter (\<lambda>col. col \<in> set (columns (with_priority (filter_rows is_common_critical df)))) required_columns)
                (with_priority (filter_rows is_common_critical df))))
           (\<lambda>cc. Inr (clean_for_json cc)) = Inr out"
proof -
  from assms have 1: "list_all (\<lambda>col. col \<in> set (columns df)) required_cols"
    unfolding generate_common_critical_def by (auto split: if_splits)
  from assms 1 have 2: "rows (filter_rows is_common_critical df) \<noteq> []"
    unfolding generate_common_critical_def Let_def by (auto split: if_splits)
  from assms 1 2 show ?thesis
    unfolding generate_common_critical_def with_priority_def Let_def
    by (simp add: select_columns_def)
qed

lemma rows_with_priority: "rows (with_priority cc) = map enrich (rows cc)"
  by (simp add: with_priority_def rows_assign enrich_def Let_def comp_def)

lemma columns_with_priority:
  "set (columns (with_priority cc)) =
     {''CVSS Value'', ''EPSS Value'', ''VPR Value'', ''Combined Priority''} \<union> set (columns cc)"
  unfolding with_priority_def set_columns_assign by blast

lemma enrich_cells:
  assumes "is_common_critical row"
  shows "cell (enrich row) ''CVSS Category'' = cell row ''CVSS Category''"
    "cell (enrich row) ''EPSS Category'' = cell row ''EPSS Category''"
    "cell (enrich row) ''VPR Category'' = cell row ''VPR Category''"
    "cell (enrich row) ''KEV Listed'' = cell row ''KEV Listed''"
    "cell (enrich row) ''CVSS v3.0 Base Score'' = cell row ''CVSS v3.0 Base Score''"
    "cell (enrich row) ''Combined Priority'' =
       PyNum (of_int (2 * band_value (Some (cell row ''CVSS Category''))
         + band_value (Some (cell row ''EPSS Category''))
         + band_value (Some (cell row ''VPR Category''))))"
proof -
  show "cell (enrich row) ''CVSS Category'' = cell row ''CVSS Category''"
    "cell (enrich row) ''EPSS Category'' = cell row ''EPSS Category''"
    "cell (enrich row) ''VPR Category'' = cell row ''VPR Category''"
    "cell (enrich row) ''KEV Listed'' = cell row ''KEV Listed''"
    "cell (enrich row) ''CVSS v3.0 Base Score'' = cell row ''CVSS v3.0 Base Score''"
    by (simp_all add: enrich_def Let_def cell_def series_get_def)
  from assms have c: "cell row ''CVSS Category'' = PyStr ''Critical'' \<or> cell row ''CVSS Category'' = PyStr ''High''"
    and e: "cell row ''EPSS Category'' = PyStr ''Critical'' \<or> cell row ''EPSS Category'' = PyStr ''High''"
    and v: "cell row ''VPR Category'' = PyStr ''Critical'' \<or> cell row ''VPR Category'' = PyStr ''High''"
    by (auto simp: is_common_critical_def)
  have "cell (enrich row) ''Combined Priority'' =
      num_add (num_add (num_mul (map_dict band_values (cell row ''CVSS Category'')) 2)
        (map_dict band_values (cell row ''EPSS Category'')))
        (map_dict band_values (cell row ''VPR Category''))"
    by (simp add: enrich_def Let_def cell_def series_get_def combined_priority_def)
  also have "\<dots> = PyNum (of_int (2 * band_value (Some (cell row ''CVSS Category''))
         + band_value (Some (cell row ''EPSS Category''))
         + band_value (Some (cell row ''VPR Category''))))"
    by (simp add: map_dict_band [OF c] map_dict_band [OF e] map_dict_band [OF v])
  finally show "cell (enrich row) ''Combined Priority'' =
       PyNum (of_int (2 * band_value (Some (cell row ''CVSS Category''))
         + band_value (Some (cell row ''EPSS Category''))
         + band_value (Some (cell row ''VPR Category''))))" .
qed

lemma cell_restrict: "c \<in> A \<Longrightarrow> cell (row |` A) c = cell row c"
  by (simp add: cell_def series_get_def)

lemma to_record_at: "c \<in> set cols \<Longrightarrow> to_record cols row c = Some (clean_value (cell row c))"
  by (simp add: to_record_def)

lemma required_in:
  "''CVSS Category'' \<in> set required_columns" "''EPSS Category'' \<in> set required_columns"
  "''VPR Category'' \<in> set required_columns" "''KEV Listed'' \<in> set required_columns"
  "''Combined Priority'' \<in> set required_columns"
  by (simp_all add: required_columns_def)


lemma generate_common_critical_returns:
  assumes "''CVSS v3.0 Base Score'' \<in> set (columns df)"
  shows "returns (generate_common_critical df)"
proof -
  let ?W = "with_priority (filter_rows is_common_critical df)"
  have "set (columns df) \<subseteq> set (columns ?W)"
    by (auto simp: columns_with_priority filter_rows_def)
  with assms have "''CVSS v3.0 Base Score'' \<in>
      set (filter (\<lambda>col. col \<in> set (columns ?W)) required_columns)"
    by (auto simp: required_columns_def)
  then show ?thesis
    unfolding generate_common_critical_def Let_def
    by (simp add: returns_def with_priority_def select_columns_def sort_values_def ebind_def)
qed

text \<open>
  C1. Every row of the list that \<open>generate_common_critical\<close> returns is Critical or
  High in its CVSS, EPSS and VPR categories and is KEV listed; its Combined Priority is
  twice the band value of its CVSS category plus the band values of its EPSS and VPR
  categories; and the rows are in non-increasing order of Combined Priority, rows of
  equal priority in descending order of the raw CVSS score (a missing score last).
  (The function returns whenever the table has a raw CVSS score column; without it,
  when a row qualifies, \<open>sort_values\<close> gets one key with two flags and raises
  ValueError.)
\<close>

theorem C1_common_critical:
  assumes "generate_common_critical df = Inr out"
  shows "(\<forall>r \<in> set out.
            critical_or_high (r ''CVSS Category'') \<and> critical_or_high (r ''EPSS Category'') \<and>
            critical_or_high (r ''VPR Category'') \<and> r ''KEV Listed'' = Some (PyStr ''Yes'') \<and>
            r ''Combined Priority'' =
              Some (PyNum (of_int (2 * band_value (r ''CVSS Category'')
                 + band_value (r ''EPSS Category'') + band_value (r ''VPR Category''))))) \<and>
         sorted_wrt priority_order out"
proof (cases "out = []")
  case True
  then show ?thesis by simp
next
  case False
  define W where "W = with_priority (filter_rows is_common_critical df)"
  define avail where "avail = filter (\<lambda>col. col \<in> set (columns W)) required_columns"
  define keys where "keys = [(''Combined Priority'', False), (''CVSS v3.0 Base Score'', False)]"
  define sel where "sel = map (\<lambda>row. enrich row |` set avail) (filter is_common_critical (rows df))"
  from gcc_unfold [OF assms False] have
    req: "list_all (\<lambda>col. col \<in> set (columns df)) required_cols" and
    run: "ebind (sort_values
             ([''Combined Priority''] @
                (if ''CVSS v3.0 Base Score'' \<in> set avail then [''CVSS v3.0 Base Score''] else []))
             [False, False] (select_columns avail W))
           (\<lambda>cc. Inr (clean_for_json cc)) = Inr out"
    by (simp_all add: W_def avail_def)
  have score: "''CVSS v3.0 Base Score'' \<in> set avail"
  proof (rule ccontr)
    assume "\<not> ?thesis"
    with run show False by (simp add: sort_values_def ebind_def)
  qed
  have colsW: "set (columns W) =
      {''CVSS Value'', ''EPSS Value'', ''VPR Value'', ''Combined Priority''} \<union> set (columns df)"
    by (simp add: W_def columns_with_priority filter_rows_def)
  from req have in_avail: "''CVSS Category'' \<in> set avail" "''EPSS Category'' \<in> set avail"
      "''VPR Category'' \<in> set avail" "''KEV Listed'' \<in> set avail"
      "''Combined Priority'' \<in> set avail"
    by (simp_all add: avail_def colsW required_in required_cols_def)
  have rowsS: "rows (select_columns avail W) = sel"
    by (simp add: select_columns_def W_def rows_with_priority filter_rows_def sel_def comp_def)
  from run score have out: "out = map (to_record avail) (sort_by (rows_le keys) sel)"
    by (simp add: sort_values_def ebind_def clean_for_json_def select_columns_def keys_def
        rowsS [unfolded select_columns_def, simplified])
  have sel_row: "\<exists>row. is_common_critical row \<and> r = enrich row |` set avail" if "r \<in> set sel" for r
    using that by (auto simp: sel_def)
  have cells: "cell r ''CVSS Category'' \<in> {PyStr ''Critical'', PyStr ''High''} \<and>
      cell r ''EPSS Category'' \<in> {PyStr ''Critical'', PyStr ''High''} \<and>
      cell r ''VPR Category'' \<in> {PyStr ''Critical'', PyStr ''High''} \<and>
      cell r ''KEV Listed'' = PyStr ''Yes'' \<and>
      cell r ''Combined Priority'' =
         PyNum (of_int (2 * band_value (Some (cell r ''CVSS Category''))
           + band_value (Some (cell r ''EPSS Category''))
           + band_value (Some (cell r ''VPR Category''))))" if "r \<in> set sel" for r
  proof -
    from sel_row [OF that] obtain row where row: "is_common_critical row"
      and r: "r = enrich row |` set avail" by blast
    from row show ?thesis
      by (simp add: r cell_restrict in_avail enrich_cells) (simp add: is_common_critical_def)
  qed
  have part1: "critical_or_high (r ''CVSS Category'') \<and> critical_or_high (r ''EPSS Category'') \<and>
            critical_or_high (r ''VPR Category'') \<and> r ''KEV Listed'' = Some (PyStr ''Yes'') \<and>
            r ''Combined Priority'' =
              Some (PyNum (of_int (2 * band_value (r ''CVSS Category'')
                 + band_value (r ''EPSS Category'') + band_value (r ''VPR Category''))))"
    if "r \<in> set out" for r
  proof -
    from that obtain s where s: "s \<in> set sel" and r: "r = to_record avail s"
      by (auto simp: out set_sort_by)
    from cells [OF s] show ?thesis
      by (auto simp: r to_record_at in_avail critical_or_high_def)
  qed
  have sorted: "sorted_wrt (rows_le keys) (sort_by (rows_le keys) sel)"
    by (rule sorted_sort_by) (rule rows_le_total, rule rows_le_trans)
  have "sorted_wrt (\<lambda>a b. priority_order (to_record avail a) (to_record avail b))
          (sort_by (rows_le keys) sel)"
  proof (rule sorted_wrt_mono_rel [OF _ sorted])
    fix a b
    assume "a \<in> set (sort_by (rows_le keys) sel)" "b \<in> set (sort_by (rows_le keys) sel)"
      and le: "rows_le keys a b"
    then have a: "a \<in> set sel" and b: "b \<in> set sel" by (simp_all add: set_sort_by)
    from cells [OF a] obtain p where p: "cell a ''Combined Priority'' = PyNum p" by blast
    from cells [OF b] obtain q where q: "cell b ''Combined Priority'' = PyNum q" by blast
    have num: "key_le False (PyNum x) (PyNum y) = (y \<le> x)" for x y
      by (simp add: key_le_def)
    from le have "q < p \<or> (q = p \<and>
        key_le False (cell a ''CVSS v3.0 Base Score'') (cell b ''CVSS v3.0 Base Score''))"
      by (auto simp: keys_def p q num split: if_splits)
    then show "priority_order (to_record avail a) (to_record avail b)"
      by (auto simp: priority_order_def to_record_at in_avail score key_le_clean p q)
  qed
  then have part2: "sorted_wrt priority_order out"
    by (simp add: out sorted_wrt_map)
  from part1 part2 show ?thesis by blast
qed

theorem C1_common_critical_witness:
  "\<exists>out. generate_common_critical analyzed_table = Inr out \<and>
         map (\<lambda>r. r ''Name'') out = [Some (PyStr ''b''), Some (PyStr ''e''), Some (PyStr ''a'')] \<and>
         map (\<lambda>r. r ''Combined Priority'') out = [Some (PyNum 16), Some (PyNum 14), Some (PyNum 14)] \<and>
         (\<forall>r \<in> set out. r ''KEV Listed'' = Some (PyStr ''Yes'')) \<and>
         sorted_wrt priority_order out"
proof -
  have n: "records_key (generate_common_critical analyzed_table) ''Name'' =
      Inr [Some (PyStr ''b''), Some (PyStr ''e''), Some (PyStr ''a'')]"
    by code_simp
  have p: "records_key (generate_common_critical analyzed_table) ''Combined Priority'' =
      Inr [Some (PyNum 16), Some (PyNum 14), Some (PyNum 14)]"
    by code_simp
  from n obtain out where h: "generate_common_critical analyzed_table = Inr out"
    by (cases "generate_common_critical analyzed_table") (auto simp: records_key_def ebind_def)
  from n p h C1_common_critical [OF h] show ?thesis
    by (auto simp: records_key_def ebind_def)
qed

section \<open>Lookup client: theorems\<close>

lemma map_of_dict_set: "map_of (dict_set d k v) = (map_of d)(k \<mapsto> v)"
  by (induction d k v rule: dict_set.induct) auto

lemma fetch_cached:
  "map_of (job_cve_cache st) cve_id = Some entry \<Longrightarrow>
   fetch_cve_details w rt cve_id st budget = (Inr entry, st)"
  by (simp add: fetch_cve_details_def)

lemma attempts_all_fail:
  assumes "\<forall>i < n. (\<forall>j \<le> i. \<not> (now w (clock_reads s + j) - start > budget)) \<longrightarrow>
             lookup_failed (respond w (requests_sent s + i) cve_id key)"
  shows "\<exists>s'. attempts w rt cve_id key start budget n a s = (Inr not_found_entry, s') \<and>
              job_cve_cache s' = dict_set (job_cve_cache s) cve_id not_found_entry"
  using assms
proof (induction n arbitrary: a s)
  case 0
  then show ?case by (simp add: store_and_return_def)
next
  case (Suc n)
  let ?s1 = "s\<lparr>clock_reads := clock_reads s + 1\<rparr>"
  let ?s2 = "?s1\<lparr>requests_sent := requests_sent s + 1\<rparr>"
  show ?case
  proof (cases "now w (clock_reads s) - start > budget")
    case True
    then show ?thesis
      by (simp add: time_time_def store_and_return_def)
  next
    case False
    with Suc.prems have failed: "lookup_failed (respond w (requests_sent s) cve_id key)"
      by (auto dest: spec [of _ 0])
    have shift: "\<forall>i < n. (\<forall>j \<le> i. \<not> (now w (clock_reads s' + j) - start > budget)) \<longrightarrow>
             lookup_failed (respond w (requests_sent s' + i) cve_id key)"
      if "clock_reads s' = clock_reads s + 1" "requests_sent s' = requests_sent s + 1" for s'
    proof (intro allI impI)
      fix i assume i: "i < n"
        and nt: "\<forall>j \<le> i. \<not> (now w (clock_reads s' + j) - start > budget)"
      have "\<forall>j \<le> Suc i. \<not> (now w (clock_reads s + j) - start > budget)"
      proof (intro allI impI)
        fix j assume "j \<le> Suc i"
        show "\<not> (now w (clock_reads s + j) - start > budget)"
        proof (cases j)
          case 0
          with False show ?thesis by simp
        next
          case (Suc j')
          with \<open>j \<le> Suc i\<close> nt that(1) show ?thesis by (auto dest: spec [of _ j'])
        qed
      qed
      with Suc.prems i have "lookup_failed (respond w (requests_sent s + Suc i) cve_id key)"
        by auto
      with that(2) show "lookup_failed (respond w (requests_sent s' + i) cve_id key)"
        by simp
    qed
    from failed consider
      "respond w (requests_sent s) cve_id key = RequestException" |
      "respond w (requests_sent s) cve_id key = RateLimited" |
      "respond w (requests_sent s) cve_id key = Document []"
      by (auto simp: lookup_failed_def)
    then show ?thesis
    proof cases
      case 1
      let ?s3 = "time_sleep (NVD_RETRY_DELAY * (a + 1)) ?s2"
      have "clock_reads ?s3 = clock_reads s + 1" "requests_sent ?s3 = requests_sent s + 1"
        by (simp_all add: time_sleep_def)
      from Suc.IH [OF shift [OF this], of "a + 1"] False 1 show ?thesis
        by (simp add: time_time_def requests_get_def time_sleep_def)
    next
      case 2
      let ?s3 = "time_sleep (NVD_RETRY_DELAY * (a + 1)) ?s2"
      have "clock_reads ?s3 = clock_reads s + 1" "requests_sent ?s3 = requests_sent s + 1"
        by (simp_all add: time_sleep_def)
      from Suc.IH [OF shift [OF this], of "a + 1"] False 2 show ?thesis
        by (simp add: time_time_def requests_get_def time_sleep_def)
    next
      case 3
      have "clock_reads ?s2 = clock_reads s + 1" "requests_sent ?s2 = requests_sent s + 1"
        by simp_all
      from Suc.IH [OF shift [OF this], of "a + 1"] False 3 show ?thesis
        by (simp add: time_time_def requests_get_def)
    qed
  qed
qed

text \<open>
  C4. For a CVE id that is a key of the cache, \<open>fetch_cve_details\<close> returns the entry
  stored there and leaves the whole state as it was: no request is sent, and no key of
  the cache is added, removed or overwritten.
\<close>

theorem C4_cache_hit:
  assumes "map_of (job_cve_cache st) cve_id = Some entry"
  shows "fetch_cve_details w rt cve_id st budget = (Inr entry, st) \<and>
         requests_sent (snd (fetch_cve_details w rt cve_id st budget)) = requests_sent st \<and>
         job_cve_cache (snd (fetch_cve_details w rt cve_id st budget)) = job_cve_cache st"
  using fetch_cached [OF assms] by simp

theorem C4_cache_hit_witness:
  "map_of (job_cve_cache cached_state) (PyStr ''CVE-2021-44228'') = Some log4j_entry \<and>
   fetch_cve_details rate_limited_world demo_runtime (PyStr ''CVE-2021-44228'') cached_state 30
     = (Inr log4j_entry, cached_state)"
proof -
  have h: "map_of (job_cve_cache cached_state) (PyStr ''CVE-2021-44228'') = Some log4j_entry"
    by (simp add: cached_state_def)
  from C4_cache_hit [OF h] h show ?thesis by blast
qed

text \<open>
  C5. For a CVE id that is not in the cache, when every lookup attempt fails (each
  attempt reached within the timeout budget ends in a request failure, a rate limit or
  an empty result set), \<open>fetch_cve_details\<close> returns, and stores in the cache under
  that id, the entry with patch status "CVE Not Found", no references and no date,
  every other key of the cache kept; and any later call for the same id returns that
  entry and leaves the state as it is, so it sends no request.
\<close>

theorem C5_negative_entry_cached:
  assumes "map_of (job_cve_cache st) cve_id = None"
    and "every_attempt_fails w st cve_id budget"
  shows "\<exists>st'. fetch_cve_details w rt cve_id st budget = (Inr not_found_entry, st') \<and>
           map_of (job_cve_cache st') = (map_of (job_cve_cache st))(cve_id \<mapsto> not_found_entry) \<and>
           status (patch_info not_found_entry) = PyStr ''CVE Not Found'' \<and>
           references (patch_info not_found_entry) = JArr [] \<and>
           date_obj not_found_entry = PyNone \<and>
           (\<forall>w' budget'. fetch_cve_details w' rt cve_id st' budget' = (Inr not_found_entry, st'))"
proof -
  obtain key s0 where k: "get_api_key st = (key, s0)" by (cases "get_api_key st")
  then have s0: "job_cve_cache s0 = job_cve_cache st" "clock_reads s0 = clock_reads st"
      "requests_sent s0 = requests_sent st"
    by (auto simp: get_api_key_def Let_def split: if_splits)
  let ?s1 = "s0\<lparr>clock_reads := clock_reads s0 + 1\<rparr>"
  let ?start = "now w (clock_reads st)"
  from assms(2) have "\<forall>i < NVD_RETRY_ATTEMPTS.
      (\<forall>j \<le> i. \<not> (now w (clock_reads ?s1 + j) - ?start > budget)) \<longrightarrow>
        lookup_failed (respond w (requests_sent ?s1 + i) cve_id key)"
    by (simp add: every_attempt_fails_def timed_out_def attempt_outcome_def k s0 add.commute add.left_commute)
  from attempts_all_fail [OF this, of rt 0] obtain st' where
    a: "attempts w rt cve_id key ?start budget NVD_RETRY_ATTEMPTS 0 ?s1 = (Inr not_found_entry, st')"
    and c: "job_cve_cache st' = dict_set (job_cve_cache st) cve_id not_found_entry"
    by (auto simp: s0)
  from assms(1) a have f: "fetch_cve_details w rt cve_id st budget = (Inr not_found_entry, st')"
    by (simp add: fetch_cve_details_def k time_time_def s0)
  from c have m: "map_of (job_cve_cache st') = (map_of (job_cve_cache st))(cve_id \<mapsto> not_found_entry)"
    by (simp add: map_of_dict_set)
  then have "map_of (job_cve_cache st') cve_id = Some not_found_entry" by simp
  then have "\<forall>w' budget'. fetch_cve_details w' rt cve_id st' budget' = (Inr not_found_entry, st')"
    by (simp add: fetch_cached)
  with f m show ?thesis
    by (auto simp: not_found_entry_def)
qed

theorem C5_negative_entry_cached_witness:
  "map_of (job_cve_cache empty_state) (PyStr ''CVE-2021-44228'') = None \<and>
   every_attempt_fails rate_limited_world empty_state (PyStr ''CVE-2021-44228'') 30 \<and>
   (\<exists>st'. fetch_cve_details rate_limited_world demo_runtime (PyStr ''CVE-2021-44228'')
             empty_state 30 = (Inr not_found_entry, st') \<and>
          fetch_cve_details rate_limited_world demo_runtime (PyStr ''CVE-2021-44228'') st' 30
            = (Inr not_found_entry, st'))"
proof -
  have h1: "map_of (job_cve_cache empty_state) (PyStr ''CVE-2021-44228'') = None"
    by (simp add: empty_state_def)
  have h2: "every_attempt_fails rate_limited_world empty_state (PyStr ''CVE-2021-44228'') 30"
    by (simp add: every_attempt_fails_def rate_limited_world_def lookup_failed_def
        attempt_outcome_def)
  from C5_negative_entry_cached [OF h1 h2, of demo_runtime] h1 h2 show ?thesis
    by blast
qed

section \<open>Pipeline: theorems\<close>

lemma ebind_InrE:
  assumes "ebind m f = Inr y"
  obtains x where "m = Inr x" and "f x = Inr y"
  using assms by (cases m) (auto simp: ebind_def)

lemma set_columns_set_column: "set (columns (set_column c vals df)) = insert c (set (columns df))"
  by (auto simp: set_column_def)

lemma rows_set_column_cell:
  assumes "r' \<in> set (rows (set_column c vals df))" and "c \<noteq> k"
  shows "\<exists>r \<in> set (rows df). cell r' k = cell r k"
proof -
  from assms(1) obtain r v where "(r, v) \<in> set (zip (rows df) vals)" and r': "r' = r(c \<mapsto> v)"
    by (auto simp: set_column_def)
  then have "r \<in> set (rows df)" by (auto dest: set_zip_leftD)
  with r' assms(2) show ?thesis by (auto simp: cell_def series_get_def)
qed

lemma risk_kept_refl: "risk_kept df df"
  by (auto simp: risk_kept_def)

lemma risk_kept_trans: "risk_kept a b \<Longrightarrow> risk_kept b c \<Longrightarrow> risk_kept a c"
  unfolding risk_kept_def by metis

lemma risk_kept_set_column: "c \<noteq> ''Risk'' \<Longrightarrow> risk_kept df (set_column c vals df)"
  unfolding risk_kept_def using rows_set_column_cell by blast

lemma risk_kept_filter_rows: "risk_kept df (filter_rows p df)"
  by (auto simp: risk_kept_def filter_rows_def)

lemma score_column_facts:
  assumes "score_column c source f df = Inr d" and "c \<noteq> ''Risk''"
  shows "set (columns df) \<subseteq> set (columns d)" and "set (columns d) \<subseteq> insert c (set (columns df))"
    and "risk_kept df d"
proof -
  show "set (columns df) \<subseteq> set (columns d)" "set (columns d) \<subseteq> insert c (set (columns df))"
    using assms(1)
    by (auto simp: score_column_def apply_column_def ebind_def set_columns_set_column
        split: sum.splits if_splits)
  show "risk_kept df d"
    using assms
    by (auto simp: score_column_def apply_column_def ebind_def risk_kept_set_column
        risk_kept_refl split: sum.splits if_splits)
qed

lemma add_exploitability_score_facts:
  "set (columns d) \<subseteq> set (columns (add_exploitability_score d))"
  "set (columns (add_exploitability_score d)) \<subseteq> insert ''Exploitability Score'' (set (columns d))"
  "risk_kept d (add_exploitability_score d)"
  "''KEV Listed'' \<notin> set (columns d) \<Longrightarrow> add_exploitability_score d = d"
  by (auto simp: add_exploitability_score_def assign_def set_columns_set_column
      risk_kept_set_column risk_kept_refl)

lemma add_scoring_data_facts:
  assumes "add_scoring_data rt df = Inr d"
  shows "risk_kept df d"
    and "set (columns df) \<subseteq> set (columns d)"
    and "''KEV Listed'' \<notin> set (columns df) \<Longrightarrow>
           set (columns d) \<subseteq> set (columns df) \<union>
             {''CVSS Category'', ''EPSS Category'', ''VPR Category''}"
proof -
  from assms [unfolded add_scoring_data_def] obtain d1 where
    1: "score_column ''CVSS Category'' ''CVSS v3.0 Base Score'' (categorize_cvss_score rt) df = Inr d1"
    and r1: "ebind (score_column ''EPSS Category'' ''EPSS Score''
              (categorize_epss_score rt) d1) (\<lambda>result_df.
       ebind (score_column ''VPR Category'' ''VPR Score''
              (categorize_vpr_score rt) result_df) (\<lambda>result_df.
       Inr (add_exploitability_score result_df))) = Inr d"
    by (rule ebind_InrE)
  from r1 obtain d2 where
    2: "score_column ''EPSS Category'' ''EPSS Score'' (categorize_epss_score rt) d1 = Inr d2"
    and r2: "ebind (score_column ''VPR Category'' ''VPR Score''
              (categorize_vpr_score rt) d2) (\<lambda>result_df.
       Inr (add_exploitability_score result_df)) = Inr d"
    by (rule ebind_InrE)
  from r2 obtain d3 where
    3: "score_column ''VPR Category'' ''VPR Score'' (categorize_vpr_score rt) d2 = Inr d3"
    and r3: "Inr (add_exploitability_score d3) = (Inr d :: error + dataframe)"
    by (rule ebind_InrE)
  from r3 have 4: "d = add_exploitability_score d3" by simp
  note c1 = score_column_facts [OF 1]
  note c2 = score_column_facts [OF 2]
  note c3 = score_column_facts [OF 3]
  have "risk_kept df d1" "risk_kept d1 d2" "risk_kept d2 d3" "risk_kept d3 d"
    using c1(3) c2(3) c3(3) by (simp_all add: 4 add_exploitability_score_facts)
  then show "risk_kept df d"
    by (blast intro: risk_kept_trans)
  have s1: "set (columns df) \<subseteq> set (columns d1)" "set (columns d1) \<subseteq> set (columns d2)"
    "set (columns d2) \<subseteq> set (columns d3)" "set (columns d3) \<subseteq> set (columns d)"
    using c1(1) c2(1) c3(1) by (simp_all add: 4 add_exploitability_score_facts)
  then show "set (columns df) \<subseteq> set (columns d)" by blast
  have u1: "set (columns d1) \<subseteq> insert ''CVSS Category'' (set (columns df))"
    and u2: "set (columns d2) \<subseteq> insert ''EPSS Category'' (set (columns d1))"
    and u3: "set (columns d3) \<subseteq> insert ''VPR Category'' (set (columns d2))"
    using c1(2) c2(2) c3(2) by simp_all
  show "set (columns d) \<subseteq> set (columns df) \<union>
             {''CVSS Category'', ''EPSS Category'', ''VPR Category''}"
    if "''KEV Listed'' \<notin> set (columns df)"
  proof -
    from that u1 u2 u3 have "''KEV Listed'' \<notin> set (columns d3)" by auto
    then have "d = d3" by (simp add: 4 add_exploitability_score_facts)
    with u1 u2 u3 show ?thesis by blast
  qed
qed

lemma filter_by_risk_facts:
  assumes "filter_by_risk p df = Inr d"
  shows "columns d = columns df" and "risk_kept df d" and "\<forall>r \<in> set (rows d). p r"
    and "d = filter_rows p df"
  using assms
  by (auto simp: filter_by_risk_def filter_rows_def risk_kept_def split: if_splits)

lemma add_cve_columns_facts:
  assumes "add_cve_columns rt kev_set cve_cache df = Inr d"
  shows "set (columns d) = set (columns df) \<union>
           {''CVE Published Date'', ''Days After Discovery'', ''KEV Listed'', ''Patch Status''}"
    and "risk_kept df d"
proof -
  from assms obtain v1 v2 v3 v4 where
    d: "d = set_column ''Patch Status'' v4
          (set_column ''KEV Listed'' v3
             (set_column ''Days After Discovery'' v2
                (set_column ''CVE Published Date'' v1 df)))"
    unfolding add_cve_columns_def Let_def
    by (elim ebind_InrE) auto
  show "set (columns d) = set (columns df) \<union>
           {''CVE Published Date'', ''Days After Discovery'', ''KEV Listed'', ''Patch Status''}"
    by (auto simp: d set_columns_set_column)
  have "risk_kept df (set_column ''CVE Published Date'' v1 df)"
    by (rule risk_kept_set_column) simp
  moreover have "risk_kept (set_column ''CVE Published Date'' v1 df)
      (set_column ''Days After Discovery'' v2 (set_column ''CVE Published Date'' v1 df))"
    by (rule risk_kept_set_column) simp
  moreover have "risk_kept
      (set_column ''Days After Discovery'' v2 (set_column ''CVE Published Date'' v1 df))
      (set_column ''KEV Listed'' v3
        (set_column ''Days After Discovery'' v2 (set_column ''CVE Published Date'' v1 df)))"
    by (rule risk_kept_set_column) simp
  moreover have "risk_kept
      (set_column ''KEV Listed'' v3
        (set_column ''Days After Discovery'' v2 (set_column ''CVE Published Date'' v1 df)))
      d"
    unfolding d by (rule risk_kept_set_column) simp
  ultimately show "risk_kept df d"
    by (blast intro: risk_kept_trans)
qed

lemma analyze_facts:
  assumes "analyze_vulnerability_data rt summaries df kev_set cve_cache =
             Inr (result_df, check_needed_df, analyzed_df, results_data)"
  shows "set (columns result_df) = set (columns df) \<union>
           {''CVE Published Date'', ''Days After Discovery'', ''KEV Listed'', ''Patch Status''}"
    and "columns check_needed_df = columns result_df"
    and "columns analyzed_df = columns result_df"
    and "risk_kept df result_df"
    and "set (rows check_needed_df) \<subseteq> set (rows result_df)"
    and "set (rows analyzed_df) \<subseteq> set (rows result_df)"
    and "\<forall>r \<in> set (rows check_needed_df) \<union> set (rows analyzed_df). not_informational r"
    and "summaries analyzed_df = Inr (summaries_of results_data)"
    and "generate_common_critical analyzed_df = Inr (common_critical_of results_data)"
proof -
  from assms obtain r0 filtered_df views cc where
    r: "add_cve_columns rt kev_set cve_cache df = Inr r0" and
    f: "filter_by_risk not_informational r0 = Inr filtered_df" and
    s: "summaries (filter_rows (\<lambda>row. cell row ''Risk'' \<noteq> PyStr ''Check Needed'') filtered_df)
          = Inr views" and
    g: "generate_common_critical
          (filter_rows (\<lambda>row. cell row ''Risk'' \<noteq> PyStr ''Check Needed'') filtered_df) = Inr cc" and
    res: "(result_df, check_needed_df, analyzed_df, results_data) =
          (r0, filter_rows (\<lambda>row. cell row ''Risk'' = PyStr ''Check Needed'') filtered_df,
           filter_rows (\<lambda>row. cell row ''Risk'' \<noteq> PyStr ''Check Needed'') filtered_df,
           \<lparr> summaries_of = views, common_critical_of = cc \<rparr>)"
    unfolding analyze_vulnerability_data_def Let_def
    by (elim ebind_InrE) auto
  from res have eqs: "result_df = r0"
    "check_needed_df = filter_rows (\<lambda>row. cell row ''Risk'' = PyStr ''Check Needed'') filtered_df"
    "analyzed_df = filter_rows (\<lambda>row. cell row ''Risk'' \<noteq> PyStr ''Check Needed'') filtered_df"
    "results_data = \<lparr> summaries_of = views, common_critical_of = cc \<rparr>"
    by simp_all
  note ff = filter_by_risk_facts [OF f]
  from add_cve_columns_facts [OF r]
  show "set (columns result_df) = set (columns df) \<union>
           {''CVE Published Date'', ''Days After Discovery'', ''KEV Listed'', ''Patch Status''}"
    "risk_kept df result_df"
    by (simp_all add: eqs)
  from ff(1) show "columns check_needed_df = columns result_df"
    "columns analyzed_df = columns result_df"
    by (simp_all add: eqs filter_rows_def)
  from ff(4) show "set (rows check_needed_df) \<subseteq> set (rows result_df)"
    "set (rows analyzed_df) \<subseteq> set (rows result_df)"
    by (auto simp: eqs filter_rows_def)
  from ff(3)
  show "\<forall>r \<in> set (rows check_needed_df) \<union> set (rows analyzed_df). not_informational r"
    by (auto simp: eqs filter_rows_def)
  from s g show "summaries analyzed_df = Inr (summaries_of results_data)"
    "generate_common_critical analyzed_df = Inr (common_critical_of results_data)"
    by (simp_all add: eqs)
qed

lemma categorize_columns:
  assumes "categorize_vulnerabilities rt nm bm df = Inr d"
  shows "set (columns d) = set (columns df) \<union> {''Risk'', ''Bucket''}"
  using assms unfolding categorize_vulnerabilities_def Let_def
  by (elim ebind_InrE) (auto simp: set_columns_set_column)

lemma process_unfold:
  assumes "fst (process_vulnerability_data w rt nm bm summaries vuln_df kev_set output_dir
                  flag state) =
           Inr (original_df, processed_df, check_needed_df, analyzed_df, results_data)"
  shows "\<exists>df working_df scored_df cache.
           categorize_vulnerabilities rt nm bm vuln_df = Inr df \<and>
           filter_by_risk not_informational df = Inr working_df \<and>
           add_scoring_data rt working_df = Inr scored_df \<and>
           analyze_vulnerability_data rt summaries scored_df kev_set cache =
             Inr (processed_df, check_needed_df, analyzed_df, results_data) \<and>
           original_df = vuln_df"
proof -
  obtain fs st where state: "state = (fs, st)" by (cases state)
  define path where "path = get_cache_path output_dir"
  define fs1 where "fs1 = (if flag then snd (clear_cache fs path) else fs)"
  define st1 where "st1 = st\<lparr>job_cve_cache := load_cve_cache rt fs1 path\<rparr>"
  note run = assms [unfolded process_vulnerability_data_def Let_def state prod.case,
      folded path_def, folded fs1_def, folded st1_def]
  from run obtain df where
    c: "categorize_vulnerabilities rt nm bm vuln_df = Inr df"
    by (cases "categorize_vulnerabilities rt nm bm vuln_df") auto
  note run2 = run [unfolded c sum.case]
  from run2 obtain working_df cves where
    wc: "ebind (filter_by_risk not_informational df) (\<lambda>working_df.
           ebind (column working_df ''CVE'') (\<lambda>cves. Inr (working_df, cves)))
         = Inr (working_df, cves)"
    by (cases "ebind (filter_by_risk not_informational df) (\<lambda>working_df.
           ebind (column working_df ''CVE'') (\<lambda>cves. Inr (working_df, cves)))") auto
  from wc have w: "filter_by_risk not_informational df = Inr working_df"
    by (elim ebind_InrE) auto
  note run3 = run2 [unfolded wc sum.case prod.case]
  obtain res st2 where fa: "fetch_all w rt
      (filter (\<lambda>cve. map_of (job_cve_cache st1) cve = None) (dropna_unique cves)) st1 = (res, st2)"
    by (cases "fetch_all w rt
      (filter (\<lambda>cve. map_of (job_cve_cache st1) cve = None) (dropna_unique cves)) st1")
  from run3 fa have
    e: "ebind (add_scoring_data rt working_df) (\<lambda>scored_df.
          ebind (analyze_vulnerability_data rt summaries scored_df kev_set (job_cve_cache st2))
            (\<lambda>(processed_df, check_needed_df, analyzed_df, results_data).
               Inr (vuln_df, processed_df, check_needed_df, analyzed_df, results_data)))
        = Inr (original_df, processed_df, check_needed_df, analyzed_df, results_data)"
    by (cases res) auto
  from e obtain scored_df where
    sc: "add_scoring_data rt working_df = Inr scored_df" and
    e2: "ebind (analyze_vulnerability_data rt summaries scored_df kev_set (job_cve_cache st2))
            (\<lambda>(processed_df, check_needed_df, analyzed_df, results_data).
               Inr (vuln_df, processed_df, check_needed_df, analyzed_df, results_data))
        = Inr (original_df, processed_df, check_needed_df, analyzed_df, results_data)"
    by (rule ebind_InrE)
  from e2 have "analyze_vulnerability_data rt summaries scored_df kev_set (job_cve_cache st2) =
             Inr (processed_df, check_needed_df, analyzed_df, results_data) \<and>
           original_df = vuln_df"
    by (elim ebind_InrE) auto
  with c w sc show ?thesis by blast
qed

text \<open>
  C10. For an input table without a column "KEV Listed", the pipeline adds no column
  "Exploitability Score": \<open>add_scoring_data\<close> runs before the analysis stage gives
  the table its "KEV Listed" column, and computes the score only when that column is
  there. The columns that the processed table has beyond those of the input are among
  nine, none of them "Exploitability Score"; so each table the pipeline returns has
  that column only if the input table had it already, and for an input without it no
  returned table has it.
\<close>

theorem C10_no_exploitability_score:
  assumes "''KEV Listed'' \<notin> set (columns vuln_df)"
    and "fst (process_vulnerability_data w rt nm bm summaries vuln_df kev_set output_dir
                flag state) =
         Inr (original_df, processed_df, check_needed_df, analyzed_df, results_data)"
  shows "set (columns processed_df) - set (columns vuln_df) \<subseteq>
           {''Risk'', ''Bucket'', ''CVSS Category'', ''EPSS Category'', ''VPR Category'',
            ''CVE Published Date'', ''Days After Discovery'', ''KEV Listed'', ''Patch Status''} \<and>
         (''Exploitability Score'' \<in> set (columns processed_df)
            \<longleftrightarrow> ''Exploitability Score'' \<in> set (columns vuln_df)) \<and>
         (''Exploitability Score'' \<in> set (columns check_needed_df)
            \<longleftrightarrow> ''Exploitability Score'' \<in> set (columns vuln_df)) \<and>
         (''Exploitability Score'' \<in> set (columns analyzed_df)
            \<longleftrightarrow> ''Exploitability Score'' \<in> set (columns vuln_df)) \<and>
         (''Exploitability Score'' \<in> set (columns original_df)
            \<longleftrightarrow> ''Exploitability Score'' \<in> set (columns vuln_df))"
proof -
  from process_unfold [OF assms(2)] obtain df working_df scored_df cache where
    c: "categorize_vulnerabilities rt nm bm vuln_df = Inr df" and
    f: "filter_by_risk not_informational df = Inr working_df" and
    s: "add_scoring_data rt working_df = Inr scored_df" and
    a: "analyze_vulnerability_data rt summaries scored_df kev_set cache =
             Inr (processed_df, check_needed_df, analyzed_df, results_data)" and
    o: "original_df = vuln_df"
    by blast
  have cw: "set (columns working_df) = set (columns vuln_df) \<union> {''Risk'', ''Bucket''}"
    using categorize_columns [OF c] filter_by_risk_facts(1) [OF f] by simp
  with assms(1) have k: "''KEV Listed'' \<notin> set (columns working_df)" by simp
  note lower = add_scoring_data_facts(2) [OF s]
  note upper = add_scoring_data_facts(3) [OF s k]
  note proc = analyze_facts(1) [OF a]
  define A where "A = {''Risk'', ''Bucket''}"
  define B where "B = {''CVSS Category'', ''EPSS Category'', ''VPR Category''}"
  define C where
    "C = {''CVE Published Date'', ''Days After Discovery'', ''KEV Listed'', ''Patch Status''}"
  from upper cw proc
  have "set (columns processed_df) - set (columns vuln_df) \<subseteq> (A \<union> B) \<union> C"
    unfolding A_def [symmetric] B_def [symmetric] C_def [symmetric] by blast
  also have "(A \<union> B) \<union> C =
           {''Risk'', ''Bucket'', ''CVSS Category'', ''EPSS Category'', ''VPR Category'',
            ''CVE Published Date'', ''Days After Discovery'', ''KEV Listed'', ''Patch Status''}"
    unfolding A_def B_def C_def by (simp only: Un_insert_left Un_empty_left)
  finally
  have added: "set (columns processed_df) - set (columns vuln_df) \<subseteq>
           {''Risk'', ''Bucket'', ''CVSS Category'', ''EPSS Category'', ''VPR Category'',
            ''CVE Published Date'', ''Days After Discovery'', ''KEV Listed'', ''Patch Status''}" .
  from lower upper cw
  have sc: "''Exploitability Score'' \<in> set (columns scored_df)
            \<longleftrightarrow> ''Exploitability Score'' \<in> set (columns vuln_df)"
    by auto
  from proc sc
  have p: "''Exploitability Score'' \<in> set (columns processed_df)
            \<longleftrightarrow> ''Exploitability Score'' \<in> set (columns vuln_df)"
    by simp
  with added analyze_facts(2,3) [OF a] o show ?thesis by simp
qed

theorem C10_no_exploitability_score_witness:
  "''KEV Listed'' \<notin> set (columns scan_table) \<and>
   (\<exists>original_df processed_df check_needed_df analyzed_df results_data.
      fst (process_vulnerability_data nvd_world demo_runtime demo_name_mappings
             demo_bucket_mappings row_count scan_table [''CVE-2021-44228''] ''output'' False
             (empty_fs, empty_state)) =
        Inr (original_df, processed_df, check_needed_df, analyzed_df, results_data) \<and>
      ''Exploitability Score'' \<notin> set (columns processed_df))"
proof -
  have k: "''KEV Listed'' \<notin> set (columns scan_table)"
    and e: "''Exploitability Score'' \<notin> set (columns scan_table)"
    by (simp_all add: scan_table_def scan_columns_def)
  have "returns (fst (process_vulnerability_data nvd_world demo_runtime demo_name_mappings
             demo_bucket_mappings row_count scan_table [''CVE-2021-44228''] ''output'' False
             (empty_fs, empty_state)))"
    by code_simp
  then obtain original_df processed_df check_needed_df analyzed_df results_data where
    h: "fst (process_vulnerability_data nvd_world demo_runtime demo_name_mappings
             demo_bucket_mappings row_count scan_table [''CVE-2021-44228''] ''output'' False
             (empty_fs, empty_state)) =
        Inr (original_df, processed_df, check_needed_df, analyzed_df, results_data)"
    using returnsE by (metis prod_cases5)
  from C10_no_exploitability_score [OF k h] e
  have "''Exploitability Score'' \<notin> set (columns processed_df)" by simp
  with k h show ?thesis by blast
qed

text \<open>
  C9, as the code has it. The pipeline returns the input table as it was given; no row
  of the processed (enriched) table, of the check-needed table or of the analyzed
  table has the risk "None" or "Informational" (the pipeline filters such rows out
  before it scores and enriches); and every aggregation view is computed from the
  analyzed table alone. So a finding whose risk after categorization is "None" is in no
  view and in no enriched table: it stays in the input table only.
\<close>

theorem C9_risk_none_excluded:
  assumes "fst (process_vulnerability_data w rt nm bm summaries vuln_df kev_set output_dir
                  flag state) =
           Inr (original_df, processed_df, check_needed_df, analyzed_df, results_data)"
  shows "original_df = vuln_df \<and>
         (\<forall>row \<in> set (rows processed_df) \<union> set (rows check_needed_df) \<union> set (rows analyzed_df).
            cell row ''Risk'' \<noteq> PyStr ''None'' \<and> cell row ''Risk'' \<noteq> PyStr ''Informational'') \<and>
         summaries analyzed_df = Inr (summaries_of results_data) \<and>
         generate_common_critical analyzed_df = Inr (common_critical_of results_data)"
proof -
  from process_unfold [OF assms] obtain df working_df scored_df cache where
    f: "filter_by_risk not_informational df = Inr working_df" and
    s: "add_scoring_data rt working_df = Inr scored_df" and
    a: "analyze_vulnerability_data rt summaries scored_df kev_set cache =
             Inr (processed_df, check_needed_df, analyzed_df, results_data)" and
    o: "original_df = vuln_df"
    by blast
  have "risk_kept working_df processed_df"
    using add_scoring_data_facts(1) [OF s] analyze_facts(4) [OF a]
    by (rule risk_kept_trans)
  with filter_by_risk_facts(3) [OF f]
  have p: "\<forall>row \<in> set (rows processed_df). not_informational row"
    by (fastforce simp: risk_kept_def not_informational_def)
  with analyze_facts(5,6) [OF a]
  have "\<forall>row \<in> set (rows processed_df) \<union> set (rows check_needed_df) \<union> set (rows analyzed_df).
          not_informational row"
    by blast
  then have "\<forall>row \<in> set (rows processed_df) \<union> set (rows check_needed_df) \<union> set (rows analyzed_df).
            cell row ''Risk'' \<noteq> PyStr ''None'' \<and> cell row ''Risk'' \<noteq> PyStr ''Informational''"
    by (simp add: not_informational_def)
  with o analyze_facts(8,9) [OF a] show ?thesis by blast
qed

theorem C9_risk_none_excluded_witness:
  "\<exists>original_df processed_df check_needed_df analyzed_df results_data.
      fst (process_vulnerability_data nvd_world demo_runtime none_name_mappings
             demo_bucket_mappings row_count scan_table [''CVE-2021-44228''] ''output'' False
             (empty_fs, empty_state)) =
        Inr (original_df, processed_df, check_needed_df, analyzed_df, results_data) \<and>
      original_df = scan_table \<and>
      (\<forall>row \<in> set (rows processed_df). cell row ''Risk'' \<noteq> PyStr ''None'') \<and>
      (\<forall>row \<in> set (rows analyzed_df). cell row ''Risk'' \<noteq> PyStr ''None'')"
proof -
  have "returns (fst (process_vulnerability_data nvd_world demo_runtime none_name_mappings
             demo_bucket_mappings row_count scan_table [''CVE-2021-44228''] ''output'' False
             (empty_fs, empty_state)))"
    by code_simp
  then obtain original_df processed_df check_needed_df analyzed_df results_data where
    h: "fst (process_vulnerability_data nvd_world demo_runtime none_name_mappings
             demo_bucket_mappings row_count scan_table [''CVE-2021-44228''] ''output'' False
             (empty_fs, empty_state)) =
        Inr (original_df, processed_df, check_needed_df, analyzed_df, results_data)"
    using returnsE by (metis prod_cases5)
  from C9_risk_none_excluded [OF h] h show ?thesis by blast
qed

text \<open>
  C9 as it is written fails: the second finding of the scan table has the risk "None"
  after categorization, and the enriched table that the pipeline returns holds the
  first and the third finding only.
\<close>

theorem C9_risk_none_not_in_enriched_table:
  "result_column (categorize_vulnerabilities demo_runtime none_name_mappings
      demo_bucket_mappings scan_table) ''Name'' =
     Inr [PyStr ''Apache Log4j SEoL'', PyStr ''Service banner'', PyStr ''nginx weak cipher''] \<and>
   result_column (categorize_vulnerabilities demo_runtime none_name_mappings
      demo_bucket_mappings scan_table) ''Risk'' =
     Inr [PyStr ''Critical'', PyStr ''None'', PyStr ''Medium''] \<and>
   result_column (processed_of (process_vulnerability_data nvd_world demo_runtime
      none_name_mappings demo_bucket_mappings row_count scan_table [''CVE-2021-44228'']
      ''output'' False (empty_fs, empty_state))) ''Name'' =
     Inr [PyStr ''Apache Log4j SEoL'', PyStr ''nginx weak cipher'']"
proof (intro conjI)
  show "result_column (categorize_vulnerabilities demo_runtime none_name_mappings
      demo_bucket_mappings scan_table) ''Name'' =
     Inr [PyStr ''Apache Log4j SEoL'', PyStr ''Service banner'', PyStr ''nginx weak cipher'']"
    by code_simp
  show "result_column (categorize_vulnerabilities demo_runtime none_name_mappings
      demo_bucket_mappings scan_table) ''Risk'' =
     Inr [PyStr ''Critical'', PyStr ''None'', PyStr ''Medium'']"
    by code_simp
  show "result_column (processed_of (process_vulnerability_data nvd_world demo_runtime
      none_name_mappings demo_bucket_mappings row_count scan_table [''CVE-2021-44228'']
      ''output'' False (empty_fs, empty_state))) ''Name'' =
     Inr [PyStr ''Apache Log4j SEoL'', PyStr ''nginx weak cipher'']"
    by code_simp
qed

section \<open>Cache: theorems\<close>

lemma length_fill_values: "length (fill_values texts vals) = length texts"
  by (induction texts vals rule: fill_values.induct) (auto split: list.splits)

lemma length_read_column: "length (read_column rt texts) = length texts"
  by (simp add: read_column_def length_fill_values split: option.splits)

lemma length_rows_set_column:
  "length vals = length (rows df) \<Longrightarrow> length (rows (set_column c vals df)) = length (rows df)"
  by (simp add: set_column_def)

lemma nth_rows_set_column:
  "length vals = length (rows df) \<Longrightarrow> i < length (rows df) \<Longrightarrow>
   rows (set_column c vals df) ! i = (rows df ! i)(c \<mapsto> vals ! i)"
  by (simp add: set_column_def)

lemma dict_set_append: "k \<notin> fst ` set d \<Longrightarrow> dict_set d k v = d @ [(k, v)]"
  by (induction d k v rule: dict_set.induct) auto

lemma load_rows_reloaded:
  assumes "\<forall>item \<in> set cache. well_formed_item rt item"
    and "distinct (map fst cache)"
    and "fst ` set cache \<inter> fst ` set acc = {}"
    and "length xs = length cache"
  shows "load_rows rt (map (\<lambda>(item, x). reloaded_row rt item x) (zip cache xs)) acc
           = Inr (acc @ cache)"
  using assms
proof (induction cache arbitrary: acc xs)
  case Nil
  then show ?case by simp
next
  case (Cons item cache)
  obtain k e where item: "item = (k, e)" by (cases item)
  from Cons.prems(4) obtain x xs' where xs: "xs = x # xs'" and len: "length xs' = length cache"
    by (cases xs) auto
  from Cons.prems(1) have wf: "well_formed_item rt (k, e)" by (simp add: item)
  from Cons.prems(3) have knew: "k \<notin> fst ` set acc" by (auto simp: item)
  obtain d p where e: "e = \<lparr> date_obj = d, patch_info = p \<rparr>" by (cases e)
  obtain s r where p: "p = \<lparr> status = s, references = r \<rparr>" by (cases p)
  from wf have wf': "text_value k" "text_value s" "d = PyNone \<or> text_value d"
      "json_dumps rt r \<noteq> []" "json_loads rt (json_dumps rt r) = Some r"
    by (simp_all add: well_formed_item_def e p)
  have date: "(if \<not> pd_isna (if d = PyNone then PyNaN else d)
               then (if d = PyNone then PyNaN else d) else PyNone) = d"
    using wf'(3) by (cases d) (auto simp: text_value_def)
  have row: "reloaded_row rt (k, e) x =
      [''cve_id'' \<mapsto> k, ''date_obj'' \<mapsto> (if d = PyNone then PyNaN else d),
       ''patch_status'' \<mapsto> s, ''references'' \<mapsto> PyStr (json_dumps rt r), ''cached_date'' \<mapsto> x]"
    by (simp add: reloaded_row_def e p)
  have step: "load_rows rt (reloaded_row rt (k, e) x # rest) acc =
      load_rows rt rest (acc @ [(k, e)])" for rest
    unfolding row using wf'(3)
    by (cases d)
       (auto simp: series_index_def ebind_def try_except_all_def wf'(5) text_value_def
          dict_set_append [OF knew] e p)
  have ih: "load_rows rt (map (\<lambda>(item, x). reloaded_row rt item x) (zip cache xs')) (acc @ [(k, e)])
          = Inr ((acc @ [(k, e)]) @ cache)"
  proof (rule Cons.IH)
    from Cons.prems(1) show "\<forall>item \<in> set cache. well_formed_item rt item" by simp
    from Cons.prems(2) show "distinct (map fst cache)" by simp
    from Cons.prems(2,3) show "fst ` set cache \<inter> fst ` set (acc @ [(k, e)]) = {}"
      by (auto simp: item)
    from len show "length xs' = length cache" .
  qed
  have "map (\<lambda>(item, x). reloaded_row rt item x) (zip (item # cache) xs) =
      reloaded_row rt (k, e) x # map (\<lambda>(item, x). reloaded_row rt item x) (zip cache xs')"
    by (simp add: item xs)
  then have "load_rows rt (map (\<lambda>(item, x). reloaded_row rt item x) (zip (item # cache) xs)) acc
      = load_rows rt (map (\<lambda>(item, x). reloaded_row rt item x) (zip cache xs')) (acc @ [(k, e)])"
    by (simp only: step)
  also note ih
  finally show ?case by (simp add: item)
qed

lemma cell_cache_row:
  "cell (cache_row rt (k, e)) ''cve_id'' = k"
  "cell (cache_row rt (k, e)) ''date_obj'' = date_obj e"
  "cell (cache_row rt (k, e)) ''patch_status'' = status (patch_info e)"
  "cell (cache_row rt (k, e)) ''references'' = PyStr (json_dumps rt (references (patch_info e)))"
  by (simp_all add: cache_row_def cell_def series_get_def)

lemma read_saved_rows:
  assumes ne: "cache \<noteq> []"
    and wf: "\<forall>item \<in> set cache. well_formed_item rt item"
    and kept: "\<forall>c \<in> set cache_columns. read_back_as_written rt (saved_texts rt cache c)"
  shows "\<exists>df xs. read_csv rt (CsvFile (to_csv rt
             (DataFrame [''cve_id'', ''date_obj'', ''patch_status'', ''references'', ''cached_date'']
                (map (cache_row rt) cache)))) = Inr df \<and>
           length xs = length cache \<and>
           rows df = map (\<lambda>(item, x). reloaded_row rt item x) (zip cache xs)"
proof -
  let ?keys = "[''cve_id'', ''date_obj'', ''patch_status'', ''references'', ''cached_date'']"
  let ?T = "to_csv rt (DataFrame ?keys (map (cache_row rt) cache))"
  let ?n = "length cache"
  define col where "col c = read_column rt (saved_texts rt cache c)" for c
  have hd: "header ?T = ?keys"
    using ne by (simp add: to_csv_def DataFrame_def)
  have texts: "map (\<lambda>line. line_cell line 0) (lines ?T) = saved_texts rt cache ''cve_id''"
    "map (\<lambda>line. line_cell line (Suc 0)) (lines ?T) = saved_texts rt cache ''date_obj''"
    "map (\<lambda>line. line_cell line 2) (lines ?T) = saved_texts rt cache ''patch_status''"
    "map (\<lambda>line. line_cell line 3) (lines ?T) = saved_texts rt cache ''references''"
    "map (\<lambda>line. line_cell line 4) (lines ?T) = saved_texts rt cache ''cached_date''"
    using ne by (simp_all add: to_csv_def DataFrame_def saved_texts_def line_cell_def comp_def)
  have zip5: "zip [0 ..< length ?keys] ?keys =
      [(0, ''cve_id''), (1, ''date_obj''), (2, ''patch_status''), (3, ''references''),
       (4, ''cached_date'')]"
    by (simp add: upt_rec)
  have lcol: "length (col c) = ?n" for c
    by (simp add: col_def length_read_column saved_texts_def)
  define base where "base = \<lparr> columns = [], rows = map (\<lambda>line. Map.empty :: series) (lines ?T) \<rparr>"
  define df where "df =
    set_column ''cached_date'' (col ''cached_date'')
      (set_column ''references'' (col ''references'')
        (set_column ''patch_status'' (col ''patch_status'')
          (set_column ''date_obj'' (col ''date_obj'')
            (set_column ''cve_id'' (col ''cve_id'') base))))"
  have lbase: "length (rows base) = ?n"
    using ne by (simp add: base_def to_csv_def DataFrame_def)
  have rd: "read_csv rt (CsvFile ?T) = Inr df"
    unfolding read_csv_def file_content.case hd zip5
    by (simp add: df_def col_def base_def texts)
  have l1: "length (rows (set_column ''cve_id'' (col ''cve_id'') base)) = ?n"
    by (simp add: length_rows_set_column lcol lbase)
  have l2: "length (rows (set_column ''date_obj'' (col ''date_obj'')
             (set_column ''cve_id'' (col ''cve_id'') base))) = ?n"
    by (simp add: length_rows_set_column lcol l1)
  have l3: "length (rows (set_column ''patch_status'' (col ''patch_status'')
             (set_column ''date_obj'' (col ''date_obj'')
               (set_column ''cve_id'' (col ''cve_id'') base)))) = ?n"
    by (simp add: length_rows_set_column lcol l2)
  have l4: "length (rows (set_column ''references'' (col ''references'')
           (set_column ''patch_status'' (col ''patch_status'')
             (set_column ''date_obj'' (col ''date_obj'')
               (set_column ''cve_id'' (col ''cve_id'') base))))) = ?n"
    by (simp add: length_rows_set_column lcol l3)
  have l5: "length (rows df) = ?n"
    unfolding df_def by (simp add: length_rows_set_column lcol l4)
  have row: "rows df ! i =
      [''cve_id'' \<mapsto> col ''cve_id'' ! i, ''date_obj'' \<mapsto> col ''date_obj'' ! i,
       ''patch_status'' \<mapsto> col ''patch_status'' ! i, ''references'' \<mapsto> col ''references'' ! i,
       ''cached_date'' \<mapsto> col ''cached_date'' ! i]" if "i < ?n" for i
  proof -
    have b: "rows base ! i = Map.empty"
      using that lbase by (simp add: base_def)
    show ?thesis
      unfolding df_def using that
      by (simp add: nth_rows_set_column lcol lbase l1 l2 l3 l4 b)
  qed
  have g: "col c ! i = (let t = cell_text rt (cell (cache_row rt (cache ! i)) c)
                        in if t = [] then PyNaN else PyStr t)"
    if "i < ?n" "c \<in> set cache_columns" for i c
  proof -
    from kept that(2) have "col c = map (\<lambda>t. if t = [] then PyNaN else PyStr t)
        (saved_texts rt cache c)"
      by (simp add: col_def read_back_as_written_def)
    with that(1) show ?thesis by (simp add: saved_texts_def Let_def)
  qed
  have rr: "rows df ! i = reloaded_row rt (cache ! i) (col ''cached_date'' ! i)" if "i < ?n" for i
  proof -
    obtain k e where ke: "cache ! i = (k, e)" by (cases "cache ! i")
    from wf that have w: "well_formed_item rt (k, e)"
      by (metis ke nth_mem)
    have 0: "col ''cve_id'' ! i = k"
      using w g [OF that, of "''cve_id''"]
      by (auto simp: cache_columns_def ke cell_cache_row well_formed_item_def text_value_def
          Let_def split: pyval.splits)
    have 1: "col ''date_obj'' ! i = (if date_obj e = PyNone then PyNaN else date_obj e)"
      using w g [OF that, of "''date_obj''"]
      by (auto simp: cache_columns_def ke cell_cache_row well_formed_item_def text_value_def
          Let_def split: pyval.splits)
    have 2: "col ''patch_status'' ! i = status (patch_info e)"
      using w g [OF that, of "''patch_status''"]
      by (auto simp: cache_columns_def ke cell_cache_row well_formed_item_def text_value_def
          Let_def split: pyval.splits)
    have 3: "col ''references'' ! i = PyStr (json_dumps rt (references (patch_info e)))"
      using w g [OF that, of "''references''"]
      by (auto simp: cache_columns_def ke cell_cache_row well_formed_item_def Let_def)
    show ?thesis
      by (simp add: row [OF that] 0 1 2 3 ke reloaded_row_def)
  qed
  have "rows df = map (\<lambda>(item, x). reloaded_row rt item x) (zip cache (col ''cached_date''))"
    by (rule nth_equalityI) (simp_all add: l5 lcol rr)
  with rd lcol show ?thesis by blast
qed

lemma load_after_save:
  assumes wf: "\<forall>item \<in> set cache. well_formed_item rt item"
    and dist: "distinct (map fst cache)"
    and kept: "\<forall>c \<in> set cache_columns. read_back_as_written rt (saved_texts rt cache c)"
    and dir: "os_path_dirname path \<noteq> []" and cw: "can_write fs path"
  shows "fst (save_cve_cache rt fs cache path) = True \<and>
         load_cve_cache rt (snd (save_cve_cache rt fs cache path)) path = cache"
proof -
  let ?keys = "[''cve_id'', ''date_obj'', ''patch_status'', ''references'', ''cached_date'']"
  let ?T = "to_csv rt (DataFrame ?keys (map (cache_row rt) cache))"
  from dir cw have sv: "save_cve_cache rt fs cache path =
      (True, fs\<lparr>files := (files fs)(path \<mapsto> CsvFile ?T)\<rparr>)"
    by (simp add: save_cve_cache_def ensure_dir_exists_def ebind_def Let_def)
  have "load_cve_cache rt (fs\<lparr>files := (files fs)(path \<mapsto> CsvFile ?T)\<rparr>) path = cache"
  proof (cases "cache = []")
    case True
    then have "read_csv rt (CsvFile ?T) = Inl EmptyDataError"
      by (simp add: read_csv_def to_csv_def DataFrame_def)
    then have "load_cve_cache rt (fs\<lparr>files := (files fs)(path \<mapsto> CsvFile ?T)\<rparr>) path = []"
      by (simp add: load_cve_cache_def ebind_def try_except_all_def)
    with True show ?thesis by simp
  next
    case False
    from read_saved_rows [OF False wf kept] obtain df xs where
      rd: "read_csv rt (CsvFile ?T) = Inr df" and len: "length xs = length cache" and
      rows: "rows df = map (\<lambda>(item, x). reloaded_row rt item x) (zip cache xs)"
      by blast
    have "load_rows rt (rows df) [] = Inr ([] @ cache)"
      unfolding rows by (rule load_rows_reloaded [OF wf dist _ len]) simp
    with rd show ?thesis
      by (simp add: load_cve_cache_def ebind_def try_except_all_def)
  qed
  then show ?thesis by (simp add: sv)
qed

lemma load_rows_malformed:
  assumes "row ''cve_id'' = Some cve_id" and "row ''date_obj'' = Some d"
    and "row ''patch_status'' = Some s" and "malformed_references rt row"
  shows "load_rows rt (row # rest) acc =
         load_rows rt rest
           (dict_set acc cve_id
              \<lparr> date_obj = (if \<not> pd_isna d then d else PyNone),
                patch_info = \<lparr> status = s, references = JArr [] \<rparr> \<rparr>)"
  using assms
  by (auto simp: malformed_references_def series_index_def ebind_def try_except_all_def
      split: option.splits pyval.splits)

lemma load_missing_file: "files fs path = None \<Longrightarrow> load_cve_cache rt fs path = []"
  by (simp add: load_cve_cache_def try_except_all_def)

text \<open>
  C6, as the code has it. Take a cache whose entries are as the lookup client makes
  them (ids and patch statuses are texts that are not empty, a date is None or such a
  text, the JSON codec gives each reference list back from its text), whose ids are
  distinct, and whose four columns the CSV reader reads back as they were written (no
  text is an NA marker such as "NA" or "null", no column is read as numbers); and a
  path with a directory part that can be written. Then \<open>save_cve_cache\<close> followed by
  \<open>load_cve_cache\<close> on that path gives the same cache: the same ids in the same
  order, each with its publication date, patch status and reference list. A record
  whose stored reference list is a text that \<open>json.loads\<close> refuses is loaded with an
  empty reference list, the rest of the row and the rows after it being loaded as
  usual. And loading from a path without a file gives the empty cache.
\<close>

theorem C6_cache_round_trip:
  assumes "\<forall>item \<in> set cache. well_formed_item rt item"
    and "distinct (map fst cache)"
    and "\<forall>c \<in> set cache_columns. read_back_as_written rt (saved_texts rt cache c)"
    and "os_path_dirname path \<noteq> []" and "can_write fs path"
  shows "load_cve_cache rt (snd (save_cve_cache rt fs cache path)) path = cache \<and>
         (\<forall>row rest acc cve_id d s.
            row ''cve_id'' = Some cve_id \<and> row ''date_obj'' = Some d \<and>
            row ''patch_status'' = Some s \<and> malformed_references rt row \<longrightarrow>
            load_rows rt (row # rest) acc =
              load_rows rt rest
                (dict_set acc cve_id
                   \<lparr> date_obj = (if \<not> pd_isna d then d else PyNone),
                     patch_info = \<lparr> status = s, references = JArr [] \<rparr> \<rparr>)) \<and>
         (\<forall>fs' path'. files fs' path' = None \<longrightarrow> load_cve_cache rt fs' path' = [])"
proof (intro conjI allI impI)
  from load_after_save [OF assms]
  show "load_cve_cache rt (snd (save_cve_cache rt fs cache path)) path = cache"
    by simp
next
  fix row rest acc cve_id d s
  assume "row ''cve_id'' = Some cve_id \<and> row ''date_obj'' = Some d \<and>
            row ''patch_status'' = Some s \<and> malformed_references rt row"
  then show "load_rows rt (row # rest) acc =
              load_rows rt rest
                (dict_set acc cve_id
                   \<lparr> date_obj = (if \<not> pd_isna d then d else PyNone),
                     patch_info = \<lparr> status = s, references = JArr [] \<rparr> \<rparr>)"
    using load_rows_malformed by blast
next
  fix fs' :: filesystem and path'
  assume "files fs' path' = None"
  then show "load_cve_cache rt fs' path' = []"
    by (rule load_missing_file)
qed

theorem C6_cache_round_trip_witness:
  "list_all (well_formed_item demo_runtime) two_entry_cache \<and>
   distinct (map fst two_entry_cache) \<and>
   list_all (\<lambda>c. read_back_as_written demo_runtime (saved_texts demo_runtime two_entry_cache c))
     cache_columns \<and>
   os_path_dirname cache_path \<noteq> [] \<and> can_write empty_fs cache_path \<and>
   load_cve_cache demo_runtime
     (snd (save_cve_cache demo_runtime empty_fs two_entry_cache cache_path)) cache_path
     = two_entry_cache"
proof -
  have 1: "list_all (well_formed_item demo_runtime) two_entry_cache"
    by code_simp
  have 2: "distinct (map fst two_entry_cache)"
    by code_simp
  have 3: "list_all (\<lambda>c. read_back_as_written demo_runtime
      (saved_texts demo_runtime two_entry_cache c)) cache_columns"
    by code_simp
  have 4: "os_path_dirname cache_path \<noteq> []"
    by code_simp
  have 5: "can_write empty_fs cache_path"
    by (simp add: empty_fs_def)
  from C6_cache_round_trip [OF 1 [unfolded list_all_iff] 2 3 [unfolded list_all_iff] 4 5]
    1 2 3 4 5
  show ?thesis
    by blast
qed

text \<open>
  C6 as it is written fails: a cache whose id is the text "NA" comes back with the id
  NaN, since \<open>read_csv\<close> takes the text for a missing value.
\<close>

theorem C6_na_id_not_reloaded:
  "load_cve_cache demo_runtime
     (snd (save_cve_cache demo_runtime empty_fs na_cache cache_path)) cache_path
     = [(PyNaN, not_found_entry)] \<and>
   map_of (load_cve_cache demo_runtime
     (snd (save_cve_cache demo_runtime empty_fs na_cache cache_path)) cache_path)
     (PyStr ''NA'') = None \<and>
   map_of na_cache (PyStr ''NA'') = Some not_found_entry"
proof (intro conjI)
  show "load_cve_cache demo_runtime
     (snd (save_cve_cache demo_runtime empty_fs na_cache cache_path)) cache_path
     = [(PyNaN, not_found_entry)]"
    by code_simp
  show "map_of (load_cve_cache demo_runtime
     (snd (save_cve_cache demo_runtime empty_fs na_cache cache_path)) cache_path)
     (PyStr ''NA'') = None"
    by code_simp
  show "map_of na_cache (PyStr ''NA'') = Some not_found_entry"
    by (simp add: na_cache_def)
qed

end
